theory Spec2Isabelle
  imports Complex_Main
begin

section \<open>Conventions of the embedding\<close>

text \<open>
  The two programs \<^verbatim>\<open>generar_mapa_baleares.py\<close> and \<^verbatim>\<open>generar_minmax_baleares.py\<close>
  are embedded function by function. Python \<^verbatim>\<open>float\<close> values are idealised as
  \<^typ>\<open>real\<close> (no rounding error, no NaN, no infinities), Python \<^verbatim>\<open>int\<close> values are
  \<^typ>\<open>int\<close>, \<^verbatim>\<open>None\<close> is \<^term>\<open>None\<close>, and every exception the code can raise
  is a value \<open>Inl e\<close> of a sum type. Where both programs define a function of the
  same name, the plain name is the one of \<^verbatim>\<open>generar_mapa_baleares.py\<close> and the name
  with the suffix \<open>_minmax\<close> the one of \<^verbatim>\<open>generar_minmax_baleares.py\<close>. A function
  that reads or writes the outside world takes the world and returns it with its result.
\<close>

text \<open>Python's \<^verbatim>\<open>int(x)\<close> on a float: truncation towards zero.\<close>

definition py_int :: "real \<Rightarrow> int" where
  "py_int x = (if 0 \<le> x then \<lfloor>x\<rfloor> else \<lceil>x\<rceil>)"

section \<open>Colour gradient engine\<close>

type_synonym rgb = "int \<times> int \<times> int"

text \<open>The local list \<^verbatim>\<open>stops\<close> of \<^verbatim>\<open>temp_to_color\<close>, one copy per program.\<close>

definition stops :: "(int \<times> rgb) list" where
  "stops =
    [(-10, (132, 0, 168)),
     (-5, (44, 0, 184)),
     (0, (0, 90, 200)),
     (3, (0, 150, 200)),
     (6, (0, 180, 170)),
     (9, (0, 200, 120)),
     (12, (80, 200, 60)),
     (15, (150, 200, 0)),
     (18, (200, 180, 0)),
     (21, (230, 150, 0)),
     (24, (240, 120, 0)),
     (27, (240, 90, 0)),
     (30, (240, 60, 0)),
     (33, (230, 30, 0)),
     (36, (220, 0, 0)),
     (39, (220, 0, 40)),
     (42, (230, 0, 100)),
     (45, (240, 0, 150)),
     (47, (250, 0, 180)),
     (50, (255, 0, 220))]"

definition stops_minmax :: "(int \<times> rgb) list" where
  "stops_minmax =
    [(-10, (132, 0, 168)), (-5, (44, 0, 184)), (0, (0, 90, 200)), (3, (0, 150, 200)), (6, (0, 180, 170)),
     (9, (0, 200, 120)), (12, (80, 200, 60)), (15, (150, 200, 0)), (18, (200, 180, 0)), (21, (230, 150, 0)),
     (24, (240, 120, 0)), (27, (240, 90, 0)), (30, (240, 60, 0)), (33, (230, 30, 0)), (36, (220, 0, 0)),
     (39, (220, 0, 40)), (42, (230, 0, 100)), (45, (240, 0, 150)), (47, (250, 0, 180)), (50, (255, 0, 220))]"

text \<open>
  The body of the \<^verbatim>\<open>if t0 <= t <= t1\<close> branch: the factor \<^verbatim>\<open>f\<close> and the three channels
  \<^verbatim>\<open>int(c0[k] + f * (c1[k] - c0[k]))\<close>.
\<close>

definition bracket_factor :: "int \<Rightarrow> int \<Rightarrow> real \<Rightarrow> real" where
  "bracket_factor t0 t1 t = (if t1 = t0 then 0 else (t - of_int t0) / (of_int t1 - of_int t0))"

definition channel :: "int \<Rightarrow> int \<Rightarrow> real \<Rightarrow> int" where
  "channel a b f = py_int (of_int a + f * of_int (b - a))"

fun interpolate :: "int \<times> rgb \<Rightarrow> int \<times> rgb \<Rightarrow> real \<Rightarrow> rgb" where
  "interpolate (t0, (r0, g0, b0)) (t1, (r1, g1, b1)) t =
     (let f = bracket_factor t0 t1 t
      in (channel r0 r1 f, channel g0 g1 f, channel b0 b1 f))"

text \<open>
  The loop \<^verbatim>\<open>for i in range(len(stops) - 1)\<close> over the consecutive pairs of stops; it
  returns from the first pair that brackets \<open>t\<close>, and \<open>None\<close> stands for falling out
  of the loop.
\<close>

fun bracket_loop :: "(int \<times> rgb) list \<Rightarrow> real \<Rightarrow> rgb option" where
  "bracket_loop (s0 # s1 # rest) t =
     (if of_int (fst s0) \<le> t \<and> t \<le> of_int (fst s1) then Some (interpolate s0 s1 t)
      else bracket_loop (s1 # rest) t)"
| "bracket_loop [s0] t = None"
| "bracket_loop [] t = None"

definition temp_to_color :: "real option \<Rightarrow> rgb" where
  "temp_to_color temp =
     (case temp of
        None \<Rightarrow> (200, 200, 200)
      | Some v \<Rightarrow>
          (let t = max (-10) (min 50 v)
           in case bracket_loop stops t of
                Some c \<Rightarrow> c
              | None \<Rightarrow> snd (last stops)))"

definition temp_to_color_minmax :: "real option \<Rightarrow> rgb" where
  "temp_to_color_minmax temp =
     (case temp of
        None \<Rightarrow> (200, 200, 200)
      | Some v \<Rightarrow>
          (let t = max (-10) (min 50 v)
           in case bracket_loop stops_minmax t of
                Some c \<Rightarrow> c
              | None \<Rightarrow> snd (last stops_minmax)))"



section \<open>Exceptions\<close>

text \<open>
  The exceptions the two programs can meet. All of them are subclasses of Python's
  \<^verbatim>\<open>Exception\<close>, so a clause \<^verbatim>\<open>except Exception\<close> catches every one of them.
\<close>

datatype error =
    ConnectionError
  | HTTPError
  | UnidentifiedImageError
  | JSONDecodeError
  | ValueError
  | ZeroDivisionError
  | TypeError
  | AttributeError
  | IndexError
  | KeyError

section \<open>Configuration\<close>

definition WIDTH :: int where "WIDTH = 1200"
definition HEIGHT :: int where "HEIGHT = 800"
definition LAT_MIN :: real where "LAT_MIN = 38.5"
definition LAT_MAX :: real where "LAT_MAX = 40.2"
definition LON_MIN :: real where "LON_MIN = 1.0"
definition LON_MAX :: real where "LON_MAX = 4.5"
definition ZOOM :: int where "ZOOM = 8"
definition TILE_SIZE :: int where "TILE_SIZE = 256"
definition RADIUS :: real where "RADIUS = 6378137.0"

section \<open>Projection engine\<close>

text \<open>\<^verbatim>\<open>math.radians\<close>.\<close>

definition radians :: "real \<Rightarrow> real" where
  "radians d = d * pi / 180"

definition lon_to_merc_x :: "real \<Rightarrow> real" where
  "lon_to_merc_x lon = radians lon * RADIUS"

text \<open>
  After the clamp the argument of \<^verbatim>\<open>math.tan\<close> lies strictly between \<open>0\<close> and
  \<open>pi / 2\<close>, so the argument of \<^verbatim>\<open>math.log\<close> is positive and the function raises
  nothing (lemma \<open>lat_to_merc_y_log_arg\<close> below).
\<close>

definition lat_to_merc_y :: "real \<Rightarrow> real" where
  "lat_to_merc_y lat =
     (let lat = max (min lat 89.9) (-89.9)
      in RADIUS * ln (tan (pi / 4.0 + radians lat / 2.0)))"

text \<open>
  \<^verbatim>\<open>lonlat_to_tile\<close> clamps nothing: \<^verbatim>\<open>1 / math.cos(lat_rad)\<close> raises
  \<^verbatim>\<open>ZeroDivisionError\<close> when the cosine is zero and \<^verbatim>\<open>math.log\<close> raises
  \<^verbatim>\<open>ValueError\<close> on an argument that is not positive.
\<close>

definition lonlat_to_tile :: "real \<Rightarrow> real \<Rightarrow> int \<Rightarrow> error + real \<times> real" where
  "lonlat_to_tile lon lat zoom =
     (let lat_rad = radians lat;
          n = 2.0 powr of_int zoom;
          xtile = (lon + 180.0) / 360.0 * n
      in if cos lat_rad = 0 then Inl ZeroDivisionError
         else if tan lat_rad + 1 / cos lat_rad \<le> 0 then Inl ValueError
         else Inr (xtile, (1.0 - ln (tan lat_rad + 1 / cos lat_rad) / pi) / 2.0 * n))"

definition tile_to_pixel :: "real \<Rightarrow> real \<Rightarrow> real \<times> real" where
  "tile_to_pixel xtile ytile = (xtile * of_int TILE_SIZE, ytile * of_int TILE_SIZE)"

definition lonlat_to_pixel :: "real \<Rightarrow> real \<Rightarrow> int \<Rightarrow> error + real \<times> real" where
  "lonlat_to_pixel lon lat zoom =
     (case lonlat_to_tile lon lat zoom of
        Inl e \<Rightarrow> Inl e
      | Inr (xtile, ytile) \<Rightarrow> Inr (tile_to_pixel xtile ytile))"

text \<open>The dictionary \<^verbatim>\<open>transform\<close>, one field per key.\<close>

record transform =
  min_x :: real
  max_x :: real
  min_y :: real
  max_y :: real
  width :: int
  height :: int

text \<open>
  \<^verbatim>\<open>project_point_mercator\<close>. The two float divisions raise
  \<^verbatim>\<open>ZeroDivisionError\<close> on a zero divisor; the horizontal one is evaluated first.
\<close>

definition project_point_mercator :: "real \<Rightarrow> real \<Rightarrow> transform \<Rightarrow> error + int \<times> int" where
  "project_point_mercator lon lat tr =
     (let x_m = lon_to_merc_x lon;
          y_m = lat_to_merc_y lat
      in if max_x tr - min_x tr = 0 then Inl ZeroDivisionError
         else if max_y tr - min_y tr = 0 then Inl ZeroDivisionError
         else Inr (py_int ((x_m - min_x tr) / (max_x tr - min_x tr) * of_int (width tr)),
                   py_int ((max_y tr - y_m) / (max_y tr - min_y tr) * of_int (height tr))))"

section \<open>Rasters\<close>

text \<open>
  A Pillow image is reduced to its size and the list of operations that painted it; the
  pixels themselves take part in no property below. The operations of Pillow are
  embedded by what they do to the size, with the library's checks on sizes:
  \<^verbatim>\<open>Image.new\<close> refuses a negative size, \<^verbatim>\<open>crop\<close> a box whose right or lower
  edge lies before its left or upper edge, \<^verbatim>\<open>resize\<close> a target size below one pixel.
\<close>

datatype colour = RGB rgb | Named string

datatype draw_op =
    Fill rgb
  | Paste "int \<times> int" "int \<times> int"
  | Crop "int \<times> int \<times> int \<times> int"
  | Resize "int \<times> int"
  | Line "int \<times> int \<times> int \<times> int" rgb
  | Ellipse "(int \<times> int) \<times> (int \<times> int)" colour colour
  | Rectangle "(int \<times> int) \<times> (int \<times> int)" colour "colour option" int
  | Text "int \<times> int" string colour

record image =
  im_size :: "int \<times> int"
  im_ops :: "draw_op list"

definition image_new :: "int \<times> int \<Rightarrow> rgb \<Rightarrow> error + image" where
  "image_new sz color =
     (if fst sz < 0 \<or> snd sz < 0 then Inl ValueError
      else Inr \<lparr>im_size = sz, im_ops = [Fill color]\<rparr>)"

definition paste :: "image \<Rightarrow> image \<Rightarrow> int \<times> int \<Rightarrow> image" where
  "paste canvas tile pos = canvas\<lparr>im_ops := im_ops canvas @ [Paste pos (im_size tile)]\<rparr>"

definition crop :: "image \<Rightarrow> int \<times> int \<times> int \<times> int \<Rightarrow> error + image" where
  "crop img box =
     (case box of (left, upper, right, lower) \<Rightarrow>
        if right < left \<or> lower < upper then Inl ValueError
        else Inr \<lparr>im_size = (right - left, lower - upper), im_ops = im_ops img @ [Crop box]\<rparr>)"

definition resize :: "image \<Rightarrow> int \<times> int \<Rightarrow> error + image" where
  "resize img sz =
     (if fst sz < 1 \<or> snd sz < 1 then Inl ValueError
      else Inr \<lparr>im_size = sz, im_ops = im_ops img @ [Resize sz]\<rparr>)"

definition draw :: "image \<Rightarrow> draw_op \<Rightarrow> image" where
  "draw img op = img\<lparr>im_ops := im_ops img @ [op]\<rparr>"

section \<open>The outside world\<close>

text \<open>
  JSON documents as \<^verbatim>\<open>r.json()\<close> returns them, the body of an HTTP response, and the
  requests the programs send (the static map by bounding box and size, a tile by
  \<open>z/x/y\<close>, the current conditions and the daily extremes by latitude and longitude).
\<close>

datatype json =
    JNull
  | JBool bool
  | JNum real
  | JStr string
  | JList "json list"
  | JDict "(string \<times> json) list"

datatype payload = ImageData image | JsonData json | Undecodable

record response =
  status_code :: int
  content :: payload

datatype request =
    StaticMap real real real real int int
  | Tile int int int
  | Current real real
  | Daily real real

text \<open>
  What the programs do not control: the answer to each request, whether the installed
  Pillow has \<^verbatim>\<open>Image.Resampling\<close> and what \<^verbatim>\<open>font.getsize\<close> returns (both depend on
  the library version; the code guards the second with \<^verbatim>\<open>try\<close>), and Python's
  conversions between floats and strings.
\<close>

record env =
  http :: "request \<Rightarrow> error + response"
  has_resampling :: bool
  font_getsize :: "string \<Rightarrow> error + int \<times> int"
  float_str :: "real \<Rightarrow> string"
  str_to_float :: "string \<Rightarrow> real option"

text \<open>
  What the programs change outside themselves: the requests sent, in order, and the
  files written.
\<close>

record world =
  requests :: "request list"
  files :: "(string \<times> image) list"

definition session_get :: "env \<Rightarrow> request \<Rightarrow> world \<Rightarrow> (error + response) \<times> world" where
  "session_get E req s = (http E req, s\<lparr>requests := requests s @ [req]\<rparr>)"

definition raise_for_status :: "response \<Rightarrow> error + unit" where
  "raise_for_status r =
     (if 400 \<le> status_code r \<and> status_code r < 600 then Inl HTTPError else Inr ())"

definition image_open :: "payload \<Rightarrow> error + image" where
  "image_open c = (case c of ImageData img \<Rightarrow> Inr img | _ \<Rightarrow> Inl UnidentifiedImageError)"

definition response_json :: "payload \<Rightarrow> error + json" where
  "response_json c = (case c of JsonData j \<Rightarrow> Inr j | _ \<Rightarrow> Inl JSONDecodeError)"

text \<open>
  The three lines \<^verbatim>\<open>r = session.get(...)\<close>, \<^verbatim>\<open>r.raise_for_status()\<close>,
  \<^verbatim>\<open>Image.open(io.BytesIO(r.content)).convert("RGB")\<close> that
  \<^verbatim>\<open>build_base_map_static\<close> and \<^verbatim>\<open>download_tile\<close> share.
\<close>

definition get_image :: "env \<Rightarrow> request \<Rightarrow> world \<Rightarrow> (error + image) \<times> world" where
  "get_image E req s =
     (case session_get E req s of
        (Inl e, s') \<Rightarrow> (Inl e, s')
      | (Inr r, s') \<Rightarrow>
          (case raise_for_status r of
             Inl e \<Rightarrow> (Inl e, s')
           | Inr _ \<Rightarrow> (image_open (content r), s')))"

section \<open>Base-map acquirer\<close>

definition build_base_map_static ::
  "env \<Rightarrow> real \<Rightarrow> real \<Rightarrow> real \<Rightarrow> real \<Rightarrow> int \<Rightarrow> int \<Rightarrow> world \<Rightarrow> (error + image \<times> transform) \<times> world" where
  "build_base_map_static E lat_min lat_max lon_min lon_max w h s =
     (case get_image E (StaticMap lon_min lat_min lon_max lat_max w h) s of
        (Inl e, s') \<Rightarrow> (Inl e, s')
      | (Inr img, s') \<Rightarrow>
          (Inr (img, \<lparr>min_x = lon_to_merc_x lon_min, max_x = lon_to_merc_x lon_max,
                      min_y = lat_to_merc_y lat_min, max_y = lat_to_merc_y lat_max,
                      width = w, height = h\<rparr>), s'))"

text \<open>
  \<^verbatim>\<open>download_tile\<close>: the \<^verbatim>\<open>except Exception\<close> branch builds the placeholder, a grey
  tile crossed by two lines.
\<close>

definition placeholder_tile :: image where
  "placeholder_tile =
     \<lparr>im_size = (TILE_SIZE, TILE_SIZE),
      im_ops = [Fill (230, 230, 230),
                Line (0, 0, TILE_SIZE, TILE_SIZE) (200, 200, 200),
                Line (0, TILE_SIZE, TILE_SIZE, 0) (200, 200, 200)]\<rparr>"

definition download_tile :: "env \<Rightarrow> int \<Rightarrow> int \<Rightarrow> int \<Rightarrow> world \<Rightarrow> (error + image) \<times> world" where
  "download_tile E z x y s =
     (case get_image E (Tile z x y) s of
        (Inr img, s') \<Rightarrow> (Inr img, s')
      | (Inl e, s') \<Rightarrow> (Inr placeholder_tile, s'))"

text \<open>\<^verbatim>\<open>download_tile\<close> of the second program: its placeholder is a plain grey tile.\<close>

definition placeholder_tile_minmax :: image where
  "placeholder_tile_minmax = \<lparr>im_size = (TILE_SIZE, TILE_SIZE), im_ops = [Fill (235, 235, 235)]\<rparr>"

definition download_tile_minmax :: "env \<Rightarrow> int \<Rightarrow> int \<Rightarrow> int \<Rightarrow> world \<Rightarrow> (error + image) \<times> world" where
  "download_tile_minmax E z x y s =
     (case get_image E (Tile z x y) s of
        (Inr img, s') \<Rightarrow> (Inr img, s')
      | (Inl e, s') \<Rightarrow> (Inr placeholder_tile_minmax, s'))"

text \<open>
  The two nested loops of \<^verbatim>\<open>build_base_map_tiles\<close>: \<open>tile_column\<close> is the inner loop
  over \<open>ty\<close> for one \<open>tx\<close>, \<open>tile_columns\<close> the outer loop over \<open>tx\<close>. The pause
  \<^verbatim>\<open>time.sleep(0.2)\<close> has no counterpart. The text of the function is the same in
  both programs but for the \<^verbatim>\<open>download_tile\<close> it calls, the argument \<open>dl\<close> here, and
  for the bounding box and the zoom, which the second program reads from its module
  constants.
\<close>

type_synonym downloader = "int \<Rightarrow> int \<Rightarrow> int \<Rightarrow> world \<Rightarrow> (error + image) \<times> world"

fun tile_column ::
  "downloader \<Rightarrow> int \<Rightarrow> int \<Rightarrow> int \<Rightarrow> int \<Rightarrow> int list \<Rightarrow> image \<Rightarrow> world \<Rightarrow> (error + image) \<times> world" where
  "tile_column dl zoom tile_x_min tile_y_min tx [] canvas s = (Inr canvas, s)"
| "tile_column dl zoom tile_x_min tile_y_min tx (ty # tys) canvas s =
     (case dl zoom tx ty s of
        (Inl e, s') \<Rightarrow> (Inl e, s')
      | (Inr tile, s') \<Rightarrow>
          (let dx = (tx - tile_x_min) * TILE_SIZE;
               dy = (ty - tile_y_min) * TILE_SIZE
           in tile_column dl zoom tile_x_min tile_y_min tx tys (paste canvas tile (dx, dy)) s'))"

fun tile_columns ::
  "downloader \<Rightarrow> int \<Rightarrow> int \<Rightarrow> int \<Rightarrow> int list \<Rightarrow> int list \<Rightarrow> image \<Rightarrow> world \<Rightarrow> (error + image) \<times> world" where
  "tile_columns dl zoom tile_x_min tile_y_min [] tys canvas s = (Inr canvas, s)"
| "tile_columns dl zoom tile_x_min tile_y_min (tx # txs) tys canvas s =
     (case tile_column dl zoom tile_x_min tile_y_min tx tys canvas s of
        (Inl e, s') \<Rightarrow> (Inl e, s')
      | (Inr canvas', s') \<Rightarrow> tile_columns dl zoom tile_x_min tile_y_min txs tys canvas' s')"

text \<open>
  \<^verbatim>\<open>int(px // TILE_SIZE)\<close> is the floor of the quotient; \<^verbatim>\<open>range(a, b + 1)\<close> is
  \<open>[a..b]\<close>, empty when \<open>b < a\<close>. The filter \<^verbatim>\<open>Image.Resampling.LANCZOS\<close> is looked
  up before \<^verbatim>\<open>resize\<close> is called and raises \<^verbatim>\<open>AttributeError\<close> where Pillow has no
  \<^verbatim>\<open>Image.Resampling\<close>.
\<close>

definition build_base_map_tiles_with ::
  "downloader \<Rightarrow> env \<Rightarrow> real \<Rightarrow> real \<Rightarrow> real \<Rightarrow> real \<Rightarrow> int \<Rightarrow> int \<Rightarrow> int \<Rightarrow> world
     \<Rightarrow> (error + image \<times> transform) \<times> world" where
  "build_base_map_tiles_with dl E lat_min lat_max lon_min lon_max zoom w h s =
     (case lonlat_to_pixel lon_min lat_min zoom of
        Inl e \<Rightarrow> (Inl e, s)
      | Inr (px_min_x, px_max_y) \<Rightarrow>
     (case lonlat_to_pixel lon_max lat_max zoom of
        Inl e \<Rightarrow> (Inl e, s)
      | Inr (px_max_x, px_min_y) \<Rightarrow>
     (let bbox_width = px_max_x - px_min_x;
          bbox_height = px_max_y - px_min_y;
          tile_x_min = \<lfloor>px_min_x / of_int TILE_SIZE\<rfloor>;
          tile_x_max = \<lfloor>px_max_x / of_int TILE_SIZE\<rfloor>;
          tile_y_min = \<lfloor>px_min_y / of_int TILE_SIZE\<rfloor>;
          tile_y_max = \<lfloor>px_max_y / of_int TILE_SIZE\<rfloor>;
          canvas_px_width = (tile_x_max - tile_x_min + 1) * TILE_SIZE;
          canvas_px_height = (tile_y_max - tile_y_min + 1) * TILE_SIZE
      in case image_new (canvas_px_width, canvas_px_height) (255, 255, 255) of
           Inl e \<Rightarrow> (Inl e, s)
         | Inr canvas \<Rightarrow>
      (case tile_columns dl zoom tile_x_min tile_y_min
              [tile_x_min..tile_x_max] [tile_y_min..tile_y_max] canvas s of
           (Inl e, s') \<Rightarrow> (Inl e, s')
         | (Inr canvas, s') \<Rightarrow>
      (let crop_left = py_int (px_min_x - of_int (tile_x_min * TILE_SIZE));
           crop_top = py_int (px_min_y - of_int (tile_y_min * TILE_SIZE));
           crop_right = crop_left + py_int bbox_width;
           crop_bottom = crop_top + py_int bbox_height
       in case crop canvas (crop_left, crop_top, crop_right, crop_bottom) of
            Inl e \<Rightarrow> (Inl e, s')
          | Inr canvas \<Rightarrow>
              if \<not> has_resampling E then (Inl AttributeError, s')
              else (case resize canvas (w, h) of
                      Inl e \<Rightarrow> (Inl e, s')
                    | Inr base_map \<Rightarrow>
                        (Inr (base_map,
                              \<lparr>min_x = lon_to_merc_x lon_min, max_x = lon_to_merc_x lon_max,
                               min_y = lat_to_merc_y lat_min, max_y = lat_to_merc_y lat_max,
                               width = w, height = h\<rparr>), s')))))))"

definition build_base_map_tiles ::
  "env \<Rightarrow> real \<Rightarrow> real \<Rightarrow> real \<Rightarrow> real \<Rightarrow> int \<Rightarrow> int \<Rightarrow> int \<Rightarrow> world
     \<Rightarrow> (error + image \<times> transform) \<times> world" where
  "build_base_map_tiles E lat_min lat_max lon_min lon_max zoom w h s =
     build_base_map_tiles_with (download_tile E) E lat_min lat_max lon_min lon_max zoom w h s"

text \<open>The builders of the second program take the size only.\<close>

definition build_base_map_static_minmax ::
  "env \<Rightarrow> int \<Rightarrow> int \<Rightarrow> world \<Rightarrow> (error + image \<times> transform) \<times> world" where
  "build_base_map_static_minmax E w h s =
     (case get_image E (StaticMap LON_MIN LAT_MIN LON_MAX LAT_MAX w h) s of
        (Inl e, s') \<Rightarrow> (Inl e, s')
      | (Inr img, s') \<Rightarrow>
          (Inr (img, \<lparr>min_x = lon_to_merc_x LON_MIN, max_x = lon_to_merc_x LON_MAX,
                      min_y = lat_to_merc_y LAT_MIN, max_y = lat_to_merc_y LAT_MAX,
                      width = w, height = h\<rparr>), s'))"

definition build_base_map_tiles_minmax ::
  "env \<Rightarrow> int \<Rightarrow> int \<Rightarrow> world \<Rightarrow> (error + image \<times> transform) \<times> world" where
  "build_base_map_tiles_minmax E w h s =
     build_base_map_tiles_with (download_tile_minmax E) E LAT_MIN LAT_MAX LON_MIN LON_MAX ZOOM w h s"

section \<open>Observations\<close>

text \<open>
  \<^verbatim>\<open>d.get(key, default)\<close> raises \<^verbatim>\<open>AttributeError\<close> on anything but a dictionary,
  \<^verbatim>\<open>v[0]\<close> and \<^verbatim>\<open>float(v)\<close> raise as Python does on each kind of JSON value, and
  \<^verbatim>\<open>round(x, 1)\<close> rounds to one decimal, a tie going to the even digit.
\<close>

fun py_get :: "json \<Rightarrow> string \<Rightarrow> json \<Rightarrow> error + json" where
  "py_get (JDict kvs) k d = Inr (case map_of kvs k of Some v \<Rightarrow> v | None \<Rightarrow> d)"
| "py_get _ k d = Inl AttributeError"

fun py_index0 :: "json \<Rightarrow> error + json" where
  "py_index0 (JList []) = Inl IndexError"
| "py_index0 (JList (v # vs)) = Inr v"
| "py_index0 (JStr []) = Inl IndexError"
| "py_index0 (JStr (c # cs)) = Inr (JStr [c])"
| "py_index0 (JDict kvs) = Inl KeyError"
| "py_index0 _ = Inl TypeError"

fun py_float :: "env \<Rightarrow> json \<Rightarrow> error + real" where
  "py_float E (JNum x) = Inr x"
| "py_float E (JBool b) = Inr (if b then 1 else 0)"
| "py_float E (JStr t) = (case str_to_float E t of Some x \<Rightarrow> Inr x | None \<Rightarrow> Inl ValueError)"
| "py_float E _ = Inl TypeError"

definition round_half_even :: "real \<Rightarrow> int" where
  "round_half_even x =
     (if x - of_int \<lfloor>x\<rfloor> < 1 / 2 then \<lfloor>x\<rfloor>
      else if 1 / 2 < x - of_int \<lfloor>x\<rfloor> then \<lfloor>x\<rfloor> + 1
      else if even \<lfloor>x\<rfloor> then \<lfloor>x\<rfloor> else \<lfloor>x\<rfloor> + 1)"

definition py_round1 :: "real \<Rightarrow> real" where
  "py_round1 x = of_int (round_half_even (x * 10)) / 10"

text \<open>
  \<^verbatim>\<open>fetch_openmeteo\<close> returns a dictionary; \<open>fetch_openmeteo_try\<close> is the body of its
  \<^verbatim>\<open>try\<close> after the request, and the \<^verbatim>\<open>except Exception\<close> branch returns the
  dictionary of three absent values.
\<close>

type_synonym meteo = "(string \<times> real option) list"

definition fetch_openmeteo_try :: "env \<Rightarrow> response \<Rightarrow> error + meteo" where
  "fetch_openmeteo_try E r =
     (case raise_for_status r of
        Inl e \<Rightarrow> Inl e
      | Inr _ \<Rightarrow>
     (case response_json (content r) of
        Inl e \<Rightarrow> Inl e
      | Inr data \<Rightarrow>
     (case py_get data ''current'' (JDict []) of
        Inl e \<Rightarrow> Inl e
      | Inr current \<Rightarrow>
     (case py_get current ''temperature_2m'' JNull of
        Inl e \<Rightarrow> Inl e
      | Inr t \<Rightarrow>
          if t = JNull then Inr [(''temp'', None)]
          else (case py_float E t of
                  Inl e \<Rightarrow> Inl e
                | Inr x \<Rightarrow> Inr [(''temp'', Some (py_round1 x))])))))"

definition fetch_openmeteo :: "env \<Rightarrow> real \<Rightarrow> real \<Rightarrow> world \<Rightarrow> (error + meteo) \<times> world" where
  "fetch_openmeteo E lat lon s =
     (case session_get E (Current lat lon) s of
        (Inl e, s') \<Rightarrow> (Inr [(''temp'', None), (''humedad'', None), (''viento'', None)], s')
      | (Inr r, s') \<Rightarrow>
          (case fetch_openmeteo_try E r of
             Inl e \<Rightarrow> (Inr [(''temp'', None), (''humedad'', None), (''viento'', None)], s')
           | Inr m \<Rightarrow> (Inr m, s')))"

text \<open>\<^verbatim>\<open>meteo.get("temp")\<close>.\<close>

definition meteo_get :: "meteo \<Rightarrow> string \<Rightarrow> real option" where
  "meteo_get m k = (case map_of m k of Some v \<Rightarrow> v | None \<Rightarrow> None)"

text \<open>\<^verbatim>\<open>fetch_minmax\<close> of the second program, in the same two parts.\<close>

definition fetch_minmax_try :: "env \<Rightarrow> response \<Rightarrow> error + real option \<times> real option" where
  "fetch_minmax_try E r =
     (case raise_for_status r of
        Inl e \<Rightarrow> Inl e
      | Inr _ \<Rightarrow>
     (case response_json (content r) of
        Inl e \<Rightarrow> Inl e
      | Inr data \<Rightarrow>
     (case py_get data ''daily'' (JDict []) of
        Inl e \<Rightarrow> Inl e
      | Inr d \<Rightarrow>
     (case py_get d ''temperature_2m_min'' (JList [JNull]) of
        Inl e \<Rightarrow> Inl e
      | Inr mins \<Rightarrow>
     (case py_index0 mins of
        Inl e \<Rightarrow> Inl e
      | Inr tmin \<Rightarrow>
     (case py_get d ''temperature_2m_max'' (JList [JNull]) of
        Inl e \<Rightarrow> Inl e
      | Inr maxs \<Rightarrow>
     (case py_index0 maxs of
        Inl e \<Rightarrow> Inl e
      | Inr tmax \<Rightarrow>
     (case (if tmin = JNull then Inr None else map_sum id Some (py_float E tmin)) of
        Inl e \<Rightarrow> Inl e
      | Inr lo \<Rightarrow>
     (case (if tmax = JNull then Inr None else map_sum id Some (py_float E tmax)) of
        Inl e \<Rightarrow> Inl e
      | Inr hi \<Rightarrow> Inr (lo, hi))))))))))"

definition fetch_minmax ::
  "env \<Rightarrow> real \<Rightarrow> real \<Rightarrow> world \<Rightarrow> (error + real option \<times> real option) \<times> world" where
  "fetch_minmax E lat lon s =
     (case session_get E (Daily lat lon) s of
        (Inl e, s') \<Rightarrow> (Inr (None, None), s')
      | (Inr r, s') \<Rightarrow>
          (case fetch_minmax_try E r of
             Inl e \<Rightarrow> (Inr (None, None), s')
           | Inr p \<Rightarrow> (Inr p, s')))"

section \<open>Label placement engine\<close>

type_synonym box = "int \<times> int \<times> int \<times> int"

text \<open>
  The test inside both placement loops,
  \<^verbatim>\<open>not (candidate[2] < bx[0] or candidate[0] > bx[2] or candidate[3] < bx[1] or candidate[1] > bx[3])\<close>,
  and the loop \<^verbatim>\<open>for bx in placed\<close> that stops at the first box that meets the
  candidate.
\<close>

fun boxes_meet :: "box \<Rightarrow> box \<Rightarrow> bool" where
  "boxes_meet (c0, c1, c2, c3) (b0, b1, b2, b3) = (\<not> (c2 < b0 \<or> c0 > b2 \<or> c3 < b1 \<or> c1 > b3))"

fun overlaps :: "box \<Rightarrow> box list \<Rightarrow> bool" where
  "overlaps candidate [] = False"
| "overlaps candidate (bx # rest) = (if boxes_meet candidate bx then True else overlaps candidate rest)"

text \<open>
  \<^verbatim>\<open>font.getsize(text)\<close> under its \<^verbatim>\<open>try\<close>, with the estimate
  \<^verbatim>\<open>(len(text) * 9, 16)\<close> of the \<^verbatim>\<open>except\<close> branch.
\<close>

definition text_size :: "env \<Rightarrow> string \<Rightarrow> int \<times> int" where
  "text_size E t = (case font_getsize E t of Inr sz \<Rightarrow> sz | Inl e \<Rightarrow> (int (length t) * 9, 16))"

text \<open>\<^verbatim>\<open>draw_marker\<close> of the first program and its loop over the visible lines.\<close>

fun draw_lines :: "image \<Rightarrow> int \<Rightarrow> int \<Rightarrow> string list \<Rightarrow> image" where
  "draw_lines img box_x ty [] = img"
| "draw_lines img box_x ty (line # rest) =
     draw_lines (draw img (Text (box_x + 8, ty) line (Named ''#000000''))) box_x (ty + 18) rest"

definition draw_marker :: "image \<Rightarrow> int \<Rightarrow> int \<Rightarrow> string list \<Rightarrow> real option \<Rightarrow> image" where
  "draw_marker img x y text_lines temp_value =
     (let color = temp_to_color temp_value;
          img = draw img (Ellipse ((x - 5, y - 5), (x + 5, y + 5)) (RGB color) (Named ''#ffffff''));
          visible = filter (\<lambda>t. t \<noteq> []) text_lines
      in if visible = [] then img
         else
           (let text_max = Max (set (map (\<lambda>t. int (length t)) visible));
                box_w = max 52 (text_max * 9 + 14);
                line_h = 18;
                padding_v = 6;
                box_h = padding_v * 2 + line_h * int (length visible);
                box_x = (if x + 12 + box_w < WIDTH - 10 then x + 12 else x - 12 - box_w);
                box_y = y - box_h div 2;
                img = draw img (Rectangle ((box_x + 2, box_y + 2), (box_x + box_w + 2, box_y + box_h + 2))
                                  (RGB (120, 120, 120)) None 1);
                img = draw img (Rectangle ((box_x, box_y), (box_x + box_w, box_y + box_h))
                                  (RGB color) (Some (RGB (40, 40, 40))) 2)
            in draw_lines img box_x (box_y + padding_v) visible))"

text \<open>
  One round of the loop \<^verbatim>\<open>for c in CIUDADES\<close> of \<^verbatim>\<open>main\<close>, on the list of accepted
  boxes and the image. A city is the pair of its \<^verbatim>\<open>lat\<close> and \<^verbatim>\<open>lon\<close> (the key
  \<^verbatim>\<open>nombre\<close> is never read). \<^verbatim>\<open>sanitize_text\<close> turns the label
  \<^verbatim>\<open>f"{temp_val}\<degree>C"\<close> into the number followed by \<^verbatim>\<open>" C"\<close> and leaves
  \<^verbatim>\<open>"Sin datos"\<close> alone.
\<close>

type_synonym city = "real \<times> real"

definition main_text :: "env \<Rightarrow> real option \<Rightarrow> string" where
  "main_text E temp_val = (case temp_val of None \<Rightarrow> ''Sin datos'' | Some v \<Rightarrow> float_str E v @ '' C'')"

text \<open>
  The estimate of the box before anything is drawn, from \<^verbatim>\<open>fw, fh = ...\<close> to
  \<^verbatim>\<open>candidate = ...\<close>.
\<close>

definition main_candidate :: "env \<Rightarrow> int \<Rightarrow> int \<Rightarrow> string \<Rightarrow> box" where
  "main_candidate E x y t =
     (let margin = 4;
          fw = fst (text_size E t);
          box_w = max 52 (fw + 14);
          box_h = 18 + 12;
          box_x = (if x + 12 + box_w < WIDTH - 10 then x + 12 else x - 12 - box_w);
          box_y = y - box_h div 2
      in (box_x - margin, box_y - margin, box_x + box_w + margin, box_y + box_h + margin))"

definition main_city ::
  "env \<Rightarrow> transform \<Rightarrow> city \<Rightarrow> box list \<times> image \<Rightarrow> world \<Rightarrow> (error + box list \<times> image) \<times> world" where
  "main_city E tr c st s =
     (case c of (lat, lon) \<Rightarrow>
      case st of (placed_boxes, img) \<Rightarrow>
      case project_point_mercator lon lat tr of
        Inl e \<Rightarrow> (Inl e, s)
      | Inr (x, y) \<Rightarrow>
     (case fetch_openmeteo E lat lon s of
        (Inl e, s') \<Rightarrow> (Inl e, s')
      | (Inr meteo, s') \<Rightarrow>
     (let temp_val = meteo_get meteo ''temp'';
          text = main_text E temp_val;
          candidate = main_candidate E x y text
      in if overlaps candidate placed_boxes then (Inr (placed_boxes, img), s')
         else (Inr (placed_boxes @ [candidate], draw_marker img x y [text] temp_val), s'))))"

fun main_cities ::
  "env \<Rightarrow> transform \<Rightarrow> city list \<Rightarrow> box list \<times> image \<Rightarrow> world \<Rightarrow> (error + box list \<times> image) \<times> world" where
  "main_cities E tr [] st s = (Inr st, s)"
| "main_cities E tr (c # cs) st s =
     (case main_city E tr c st s of
        (Inl e, s') \<Rightarrow> (Inl e, s')
      | (Inr st', s') \<Rightarrow> main_cities E tr cs st' s')"

text \<open>
  \<^verbatim>\<open>draw_badge\<close> of the second program: it returns whether the badge was drawn, with
  the image and the list \<^verbatim>\<open>placed\<close> it was given to change. \<open>badge_candidate\<close> is
  its tuple \<^verbatim>\<open>candidate\<close>, the box widened by three pixels on every side.
\<close>

definition badge_candidate :: "env \<Rightarrow> int \<Rightarrow> int \<Rightarrow> string \<Rightarrow> box" where
  "badge_candidate E x y t =
     (let fw = fst (text_size E t);
          box_w = max 46 (fw + 12);
          box_h = 16 + 10;
          box_x = (if x + 10 + box_w < WIDTH - 10 then x + 10 else x - 10 - box_w);
          box_y = y - box_h div 2
      in (box_x - 3, box_y - 3, box_x + box_w + 3, box_y + box_h + 3))"

definition draw_badge ::
  "env \<Rightarrow> image \<Rightarrow> int \<Rightarrow> int \<Rightarrow> string \<Rightarrow> real option \<Rightarrow> box list \<Rightarrow> bool \<times> image \<times> box list" where
  "draw_badge E img x y t temp placed =
     (let color = temp_to_color_minmax temp;
          fw = fst (text_size E t);
          box_w = max 46 (fw + 12);
          box_h = 16 + 10;
          box_x = (if x + 10 + box_w < WIDTH - 10 then x + 10 else x - 10 - box_w);
          box_y = y - box_h div 2;
          candidate = badge_candidate E x y t
      in if overlaps candidate placed then (False, img, placed)
         else
           (let img = draw img (Ellipse ((x - 4, y - 4), (x + 4, y + 4)) (RGB color) (Named ''#ffffff''));
                img = draw img (Rectangle ((box_x + 2, box_y + 2), (box_x + box_w + 2, box_y + box_h + 2))
                                  (RGB (120, 120, 120)) None 1);
                img = draw img (Rectangle ((box_x, box_y), (box_x + box_w, box_y + box_h))
                                  (RGB color) (Some (RGB (40, 40, 40))) 2);
                img = draw img (Text (box_x + 6, box_y + 5) t (Named ''#000000''))
            in (True, img, placed @ [candidate])))"

text \<open>
  One round of the loop \<^verbatim>\<open>for c in CIUDADES\<close> of \<^verbatim>\<open>render_map\<close>, which projects in
  line with the module's \<^verbatim>\<open>WIDTH\<close> and \<^verbatim>\<open>HEIGHT\<close>; the label ends in the degree sign
  (code point 176) and \<^verbatim>\<open>C\<close>.
\<close>

definition render_city ::
  "env \<Rightarrow> string \<Rightarrow> transform \<Rightarrow> city \<Rightarrow> box list \<times> image \<Rightarrow> world \<Rightarrow> (error + box list \<times> image) \<times> world" where
  "render_city E kind tr c st s =
     (case c of (lat, lon) \<Rightarrow>
      case st of (placed, img) \<Rightarrow>
      if max_x tr - min_x tr = 0 then (Inl ZeroDivisionError, s)
      else if max_y tr - min_y tr = 0 then (Inl ZeroDivisionError, s)
      else
     (let x_m = (lon_to_merc_x lon - min_x tr) / (max_x tr - min_x tr) * of_int WIDTH;
          y_m = (max_y tr - lat_to_merc_y lat) / (max_y tr - min_y tr) * of_int HEIGHT;
          x = py_int x_m;
          y = py_int y_m
      in case fetch_minmax E lat lon s of
           (Inl e, s') \<Rightarrow> (Inl e, s')
         | (Inr (tmin, tmax), s') \<Rightarrow>
     (let temp = (if kind = ''min'' then tmin else tmax);
          text = (case temp of None \<Rightarrow> ''Sin datos''
                  | Some v \<Rightarrow> float_str E (py_round1 v) @ [char_of (176 :: nat), CHR ''C''])
      in case draw_badge E img x y text temp placed of
           (accepted, img', placed') \<Rightarrow> (Inr (placed', img'), s'))))"

fun render_cities ::
  "env \<Rightarrow> string \<Rightarrow> transform \<Rightarrow> city list \<Rightarrow> box list \<times> image \<Rightarrow> world
     \<Rightarrow> (error + box list \<times> image) \<times> world" where
  "render_cities E kind tr [] st s = (Inr st, s)"
| "render_cities E kind tr (c # cs) st s =
     (case render_city E kind tr c st s of
        (Inl e, s') \<Rightarrow> (Inl e, s')
      | (Inr st', s') \<Rightarrow> render_cities E kind tr cs st' s')"

section \<open>Renderer\<close>


definition CIUDADES_minmax :: "city list" where
  "CIUDADES_minmax =
    [(39.569, 2.650), (39.563, 2.506), (39.766, 2.715), (39.721, 2.910),
     (39.853, 3.121), (39.877, 3.016), (39.570, 3.209), (39.469, 3.147),
     (39.490, 2.883), (39.355, 3.128), (39.889, 4.262), (40.001, 3.839),
     (39.994, 4.093), (38.907, 1.420), (38.980, 1.303), (38.984, 1.535),
     (38.727, 1.408)]"



text \<open>\<^verbatim>\<open>render_map\<close> and \<^verbatim>\<open>main\<close> of the second program, with the same omissions.\<close>

definition render_base_map :: "env \<Rightarrow> world \<Rightarrow> (error + image \<times> transform) \<times> world" where
  "render_base_map E s =
     (case build_base_map_static_minmax E WIDTH HEIGHT s of
        (Inr r, s') \<Rightarrow> (Inr r, s')
      | (Inl e, s') \<Rightarrow> build_base_map_tiles_minmax E WIDTH HEIGHT s')"

definition render_map :: "env \<Rightarrow> string \<Rightarrow> string \<Rightarrow> world \<Rightarrow> (error + unit) \<times> world" where
  "render_map E kind out_name s =
     (case render_base_map E s of
        (Inl e, s1) \<Rightarrow> (Inl e, s1)
      | (Inr (base, tr), s1) \<Rightarrow>
     (case render_cities E kind tr CIUDADES_minmax ([], base) s1 of
        (Inl e, s2) \<Rightarrow> (Inl e, s2)
      | (Inr (placed, img), s2) \<Rightarrow>
          (Inr (), s2\<lparr>files := files s2 @ [(out_name, img)]\<rparr>)))"

definition main_minmax :: "env \<Rightarrow> world \<Rightarrow> (error + unit) \<times> world" where
  "main_minmax E s =
     (case render_map E ''min'' ''mapa_baleares_min.png'' s of
        (Inl e, s') \<Rightarrow> (Inl e, s')
      | (Inr _, s') \<Rightarrow> render_map E ''max'' ''mapa_baleares_max.png'' s')"

section \<open>Notions of the specification\<close>

text \<open>
  Two boxes are disjoint as closed pixel rectangles when one lies wholly to one side of
  the other; a list of boxes is pairwise disjoint when every two of its entries are.
\<close>

fun disjoint_boxes :: "box \<Rightarrow> box \<Rightarrow> bool" where
  "disjoint_boxes (l1, t1, r1, b1) (l2, t2, r2, b2) = (r1 < l2 \<or> r2 < l1 \<or> b1 < t2 \<or> b2 < t1)"

fun pairwise_disjoint :: "box list \<Rightarrow> bool" where
  "pairwise_disjoint [] = True"
| "pairwise_disjoint (b # bs) = (list_all (disjoint_boxes b) bs \<and> pairwise_disjoint bs)"

text \<open>
  The tile index of a point at a zoom (the integer parts of its fractional tile
  coordinates), and the tiles of a rectangle of
  indices in row-major order (row after row, a row being the tiles of one \<open>y\<close>) and in
  column-major order (column after column, a column being the tiles of one \<open>x\<close>).
\<close>

definition tile_index :: "real \<Rightarrow> real \<Rightarrow> int \<Rightarrow> error + int \<times> int" where
  "tile_index lon lat zoom =
     (case lonlat_to_tile lon lat zoom of
        Inl e \<Rightarrow> Inl e
      | Inr (xtile, ytile) \<Rightarrow> Inr (\<lfloor>xtile\<rfloor>, \<lfloor>ytile\<rfloor>))"

definition row_major :: "int \<Rightarrow> int \<Rightarrow> int \<Rightarrow> int \<Rightarrow> (int \<times> int) list" where
  "row_major x_lo x_hi y_lo y_hi = concat (map (\<lambda>y. map (\<lambda>x. (x, y)) [x_lo..x_hi]) [y_lo..y_hi])"

definition column_major :: "int \<Rightarrow> int \<Rightarrow> int \<Rightarrow> int \<Rightarrow> (int \<times> int) list" where
  "column_major x_lo x_hi y_lo y_hi = concat (map (\<lambda>x. map (\<lambda>y. (x, y)) [y_lo..y_hi]) [x_lo..x_hi])"

text \<open>
  The fractional tile coordinates in closed form: for a latitude strictly between the
  poles \<^verbatim>\<open>lonlat_to_tile\<close> returns \<open>(xtile_of lon zoom, ytile_of lat zoom)\<close>, the
  vertical one through the half-angle form \<open>tan (pi / 4 + lat / 2)\<close> of
  \<open>tan lat + 1 / cos lat\<close>.
\<close>

definition xtile_of :: "real \<Rightarrow> int \<Rightarrow> real" where
  "xtile_of lon zoom = (lon + 180) / 360 * 2 powr of_int zoom"

definition ytile_of :: "real \<Rightarrow> int \<Rightarrow> real" where
  "ytile_of lat zoom = (1 - ln (tan (pi / 4 + radians lat / 2)) / pi) / 2 * 2 powr of_int zoom"

text \<open>
  The least rectangle of tile indices that covers a list of tiles, as the bounds
  \<open>(x_lo, x_hi, y_lo, y_hi)\<close> of its columns and rows.
\<close>

definition cover :: "(int \<times> int) list \<Rightarrow> int \<times> int \<times> int \<times> int" where
  "cover cs =
     (Min (set (map fst cs)), Max (set (map fst cs)), Min (set (map snd cs)), Max (set (map snd cs)))"

text \<open>
  The transform of a bounding box and a size, as the specification requires it of both
  acquisition paths: the Mercator images of the corners of the requested box, and the
  requested size.
\<close>

definition bbox_transform :: "real \<Rightarrow> real \<Rightarrow> real \<Rightarrow> real \<Rightarrow> int \<Rightarrow> int \<Rightarrow> transform" where
  "bbox_transform lat_min lat_max lon_min lon_max w h =
     \<lparr>min_x = lon_to_merc_x lon_min, max_x = lon_to_merc_x lon_max,
      min_y = lat_to_merc_y lat_min, max_y = lat_to_merc_y lat_max,
      width = w, height = h\<rparr>"

section \<open>The arithmetic of the machine\<close>

text \<open>
  A Python float operation returns the exact result rounded to a double. Where a claim
  depends on it, the gradient and the projection are embedded a second time with that
  rounding written out, over a floating-point unit: \<open>rnd\<close> is the rounding applied to
  the exact result of every \<^verbatim>\<open>+\<close>, \<^verbatim>\<open>-\<close>, \<^verbatim>\<open>*\<close>, \<^verbatim>\<open>/\<close> on floats and to
  every decimal literal and constant, \<open>flog\<close> and \<open>ftan\<close> are \<^verbatim>\<open>math.log\<close> and
  \<^verbatim>\<open>math.tan\<close> as the platform computes them. Comparisons, \<^verbatim>\<open>max\<close>, \<^verbatim>\<open>min\<close>,
  negation, integer arithmetic and \<^verbatim>\<open>int()\<close> are exact. Overflow, infinities and NaN
  stay out of the model. The definitions above are the instance at \<open>exact_unit\<close>, the
  unit that rounds nothing.
\<close>

record float_unit =
  rnd :: "real \<Rightarrow> real"
  flog :: "real \<Rightarrow> real"
  ftan :: "real \<Rightarrow> real"

definition exact_unit :: float_unit where
  "exact_unit = \<lparr>rnd = (\<lambda>x. x), flog = ln, ftan = tan\<rparr>"

text \<open>
  What is assumed of a rounding: it returns every integer up to \<open>2 ^ 53\<close> in absolute
  value unchanged, and it keeps the order, as rounding to the nearest double does.
\<close>

definition keeps_integers :: "(real \<Rightarrow> real) \<Rightarrow> bool" where
  "keeps_integers r = (\<forall>n::int. \<bar>n\<bar> \<le> 2 ^ 53 \<longrightarrow> r (of_int n) = of_int n)"

definition float_rounding :: "(real \<Rightarrow> real) \<Rightarrow> bool" where
  "float_rounding r = ((\<forall>x y. x \<le> y \<longrightarrow> r x \<le> r y) \<and> keeps_integers r)"

text \<open>
  Rounding to the nearest double, a tie going to the even significand, on the normal
  range: a real between \<open>2 ^ e\<close> and \<open>2 ^ (e + 1)\<close> in absolute value is rounded to
  a multiple of \<open>2 ^ (e - 52)\<close>. The unit \<open>double_unit\<close> rounds with it, its
  logarithm and tangent being the exact ones rounded.
\<close>

definition round_double :: "real \<Rightarrow> real" where
  "round_double x =
     (if x = 0 then 0
      else (let e = \<lfloor>log 2 \<bar>x\<bar>\<rfloor>;
                u = 2 powr of_int (e - 52)
            in of_int (round_half_even (x / u)) * u))"

definition double_unit :: float_unit where
  "double_unit =
     \<lparr>rnd = round_double, flog = (\<lambda>x. round_double (ln x)), ftan = (\<lambda>x. round_double (tan x))\<rparr>"

text \<open>A stop whose temperature and channels are far below \<open>2 ^ 53\<close>.\<close>

definition small_stop :: "int \<times> rgb \<Rightarrow> bool" where
  "small_stop s = (\<bar>fst s\<bar> \<le> 2 ^ 52 \<and> \<bar>fst (snd s)\<bar> \<le> 2 ^ 52
      \<and> \<bar>fst (snd (snd s))\<bar> \<le> 2 ^ 52 \<and> \<bar>snd (snd (snd s))\<bar> \<le> 2 ^ 52)"

text \<open>
  \<open>temp_to_color\<close> over a unit. In \<^verbatim>\<open>(t - t0) / (t1 - t0)\<close> the divisor is a
  difference of two integers, in \<^verbatim>\<open>c0[k] + f * (c1[k] - c0[k])\<close> so is the last factor.
\<close>

definition bracket_factor_fl :: "float_unit \<Rightarrow> int \<Rightarrow> int \<Rightarrow> real \<Rightarrow> real" where
  "bracket_factor_fl F t0 t1 t =
     (if t1 = t0 then 0 else rnd F (rnd F (t - of_int t0) / of_int (t1 - t0)))"

definition channel_fl :: "float_unit \<Rightarrow> int \<Rightarrow> int \<Rightarrow> real \<Rightarrow> int" where
  "channel_fl F a b f = py_int (rnd F (of_int a + rnd F (f * of_int (b - a))))"

fun interpolate_fl :: "float_unit \<Rightarrow> int \<times> rgb \<Rightarrow> int \<times> rgb \<Rightarrow> real \<Rightarrow> rgb" where
  "interpolate_fl F (t0, (r0, g0, b0)) (t1, (r1, g1, b1)) t =
     (let f = bracket_factor_fl F t0 t1 t
      in (channel_fl F r0 r1 f, channel_fl F g0 g1 f, channel_fl F b0 b1 f))"

fun bracket_loop_fl :: "float_unit \<Rightarrow> (int \<times> rgb) list \<Rightarrow> real \<Rightarrow> rgb option" where
  "bracket_loop_fl F (s0 # s1 # rest) t =
     (if of_int (fst s0) \<le> t \<and> t \<le> of_int (fst s1) then Some (interpolate_fl F s0 s1 t)
      else bracket_loop_fl F (s1 # rest) t)"
| "bracket_loop_fl F [s0] t = None"
| "bracket_loop_fl F [] t = None"

definition temp_to_color_fl :: "float_unit \<Rightarrow> real option \<Rightarrow> rgb" where
  "temp_to_color_fl F temp =
     (case temp of
        None \<Rightarrow> (200, 200, 200)
      | Some v \<Rightarrow>
          (let t = max (-10) (min 50 v)
           in case bracket_loop_fl F stops t of
                Some c \<Rightarrow> c
              | None \<Rightarrow> snd (last stops)))"

definition temp_to_color_minmax_fl :: "float_unit \<Rightarrow> real option \<Rightarrow> rgb" where
  "temp_to_color_minmax_fl F temp =
     (case temp of
        None \<Rightarrow> (200, 200, 200)
      | Some v \<Rightarrow>
          (let t = max (-10) (min 50 v)
           in case bracket_loop_fl F stops_minmax t of
                Some c \<Rightarrow> c
              | None \<Rightarrow> snd (last stops_minmax)))"

text \<open>
  The projection over a unit. \<^verbatim>\<open>math.radians(d)\<close> multiplies by the constant
  \<^verbatim>\<open>pi / 180\<close>, itself computed in doubles; the literals \<^verbatim>\<open>89.9\<close> and \<^verbatim>\<open>math.pi\<close>
  are the doubles nearest to them. With a rounded tangent the argument of
  \<^verbatim>\<open>math.log\<close> need not be positive, and \<^verbatim>\<open>math.log\<close> raises \<^verbatim>\<open>ValueError\<close> when
  it is not. The divisions of \<^verbatim>\<open>project_point_mercator\<close> raise when the computed
  difference is zero.
\<close>

definition radians_fl :: "float_unit \<Rightarrow> real \<Rightarrow> real" where
  "radians_fl F d = rnd F (d * rnd F (rnd F pi / 180))"

definition lon_to_merc_x_fl :: "float_unit \<Rightarrow> real \<Rightarrow> real" where
  "lon_to_merc_x_fl F lon = rnd F (radians_fl F lon * RADIUS)"

definition lat_to_merc_y_fl :: "float_unit \<Rightarrow> real \<Rightarrow> error + real" where
  "lat_to_merc_y_fl F lat =
     (let lat = max (min lat (rnd F 89.9)) (- rnd F 89.9);
          a = ftan F (rnd F (rnd F (rnd F pi / 4.0) + rnd F (radians_fl F lat / 2.0)))
      in if a \<le> 0 then Inl ValueError else Inr (rnd F (RADIUS * flog F a)))"

definition project_point_mercator_fl ::
  "float_unit \<Rightarrow> real \<Rightarrow> real \<Rightarrow> transform \<Rightarrow> error + int \<times> int" where
  "project_point_mercator_fl F lon lat tr =
     (let x_m = lon_to_merc_x_fl F lon
      in case lat_to_merc_y_fl F lat of
           Inl e \<Rightarrow> Inl e
         | Inr y_m \<Rightarrow>
             if rnd F (max_x tr - min_x tr) = 0 then Inl ZeroDivisionError
             else if rnd F (max_y tr - min_y tr) = 0 then Inl ZeroDivisionError
             else Inr (py_int (rnd F (rnd F (rnd F (x_m - min_x tr) / rnd F (max_x tr - min_x tr))
                                        * of_int (width tr))),
                       py_int (rnd F (rnd F (rnd F (max_y tr - y_m) / rnd F (max_y tr - min_y tr))
                                        * of_int (height tr)))))"

text \<open>
  The six assignments that close both base-map builders, over a unit: the transform of
  a bounding box and a size.
\<close>

definition bbox_transform_fl ::
  "float_unit \<Rightarrow> real \<Rightarrow> real \<Rightarrow> real \<Rightarrow> real \<Rightarrow> int \<Rightarrow> int \<Rightarrow> error + transform" where
  "bbox_transform_fl F lat_min lat_max lon_min lon_max w h =
     (case lat_to_merc_y_fl F lat_min of
        Inl e \<Rightarrow> Inl e
      | Inr y0 \<Rightarrow>
     (case lat_to_merc_y_fl F lat_max of
        Inl e \<Rightarrow> Inl e
      | Inr y1 \<Rightarrow>
          Inr \<lparr>min_x = lon_to_merc_x_fl F lon_min, max_x = lon_to_merc_x_fl F lon_max,
               min_y = y0, max_y = y1, width = w, height = h\<rparr>))"

text \<open>
  The computed latitude curve is nondecreasing on a set of latitudes: what the
  platform's logarithm and tangent must grant for a point of a box to lie between the
  box's edges after the conversion.
\<close>

definition merc_y_nondecreasing :: "float_unit \<Rightarrow> real set \<Rightarrow> bool" where
  "merc_y_nondecreasing F S =
     (\<forall>a\<in>S. \<forall>b\<in>S. \<forall>ya yb.
        a \<le> b \<and> lat_to_merc_y_fl F a = Inr ya \<and> lat_to_merc_y_fl F b = Inr yb \<longrightarrow> ya \<le> yb)"

section \<open>Sample worlds\<close>

text \<open>
  Three surroundings for the closed instances below: one where every request is
  answered (the static map in the size asked for, a tile of 256 pixels, an observation
  of 21.5 degrees now and of 15 and 25 degrees over the day), one where no request gets
  through, and one where the network is down and Pillow has no \<^verbatim>\<open>Image.Resampling\<close>.
\<close>

definition answer :: "request \<Rightarrow> response" where
  "answer req =
     (case req of
        StaticMap lon_min lat_min lon_max lat_max w h \<Rightarrow>
          \<lparr>status_code = 200, content = ImageData \<lparr>im_size = (w, h), im_ops = []\<rparr>\<rparr>
      | Tile z x y \<Rightarrow>
          \<lparr>status_code = 200, content = ImageData \<lparr>im_size = (256, 256), im_ops = []\<rparr>\<rparr>
      | Current lat lon \<Rightarrow>
          \<lparr>status_code = 200,
           content = JsonData (JDict [(''current'', JDict [(''temperature_2m'', JNum 21.5)])])\<rparr>
      | Daily lat lon \<Rightarrow>
          \<lparr>status_code = 200,
           content = JsonData (JDict [(''daily'',
              JDict [(''temperature_2m_min'', JList [JNum 15]),
                     (''temperature_2m_max'', JList [JNum 25])])])\<rparr>)"

definition env_online :: env where
  "env_online =
     \<lparr>http = (\<lambda>req. Inr (answer req)), has_resampling = True,
      font_getsize = (\<lambda>t. Inl AttributeError), float_str = (\<lambda>x. ''21.5''),
      str_to_float = (\<lambda>t. None)\<rparr>"

definition env_offline :: env where
  "env_offline =
     \<lparr>http = (\<lambda>req. Inl ConnectionError), has_resampling = True,
      font_getsize = (\<lambda>t. Inl AttributeError), float_str = (\<lambda>x. ''21.5''),
      str_to_float = (\<lambda>t. None)\<rparr>"


definition world0 :: world where
  "world0 = \<lparr>requests = [], files = []\<rparr>"

text \<open>
  A transform that spans twenty degrees of longitude, and an empty canvas of the
  programs' size.
\<close>

definition sample_transform :: transform where
  "sample_transform =
     \<lparr>min_x = lon_to_merc_x (-10), max_x = lon_to_merc_x 10, min_y = -1, max_y = 1,
      width = 1200, height = 800\<rparr>"

definition blank :: image where
  "blank = \<lparr>im_size = (1200, 800), im_ops = []\<rparr>"

section \<open>Properties of the colour gradient engine\<close>

lemma stops_minmax_eq: "stops_minmax = stops"
  by (simp add: stops_def stops_minmax_def)

lemma temp_to_color_minmax_eq: "temp_to_color_minmax temp = temp_to_color temp"
  unfolding temp_to_color_def temp_to_color_minmax_def stops_minmax_eq ..






lemma temp_to_color_low: "v \<le> -10 \<Longrightarrow> temp_to_color (Some v) = (132, 0, 168)"
  by (simp add: temp_to_color_def stops_def bracket_factor_def channel_def py_int_def)

lemma temp_to_color_high: "50 \<le> v \<Longrightarrow> temp_to_color (Some v) = (255, 0, 220)"
  by (simp add: temp_to_color_def stops_def bracket_factor_def channel_def py_int_def)




text \<open>
  Claim C8. \<open>temp_to_color\<close> clamps its input to the domain \<open>[-10, 50]\<close> of the stops:
  every value at or below the first stop gets the first stop's colour, every value at or
  above the last stop gets the last stop's colour \<open>(255, 0, 220)\<close>; in particular
  \<open>temp_to_color (-100) = temp_to_color (-10)\<close> and
  \<open>temp_to_color 1000 = (255, 0, 220)\<close>. The same holds in the second program.
\<close>

theorem temp_to_color_clamps:
  "(v \<le> -10 \<longrightarrow> temp_to_color (Some v) = snd (hd stops)
               \<and> temp_to_color_minmax (Some v) = snd (hd stops_minmax))
   \<and> (50 \<le> v \<longrightarrow> temp_to_color (Some v) = snd (last stops)
               \<and> temp_to_color_minmax (Some v) = snd (last stops_minmax))
   \<and> temp_to_color (Some (-100)) = temp_to_color (Some (-10))
   \<and> temp_to_color (Some 1000) = (255, 0, 220)
   \<and> temp_to_color_minmax (Some (-100)) = temp_to_color_minmax (Some (-10))
   \<and> temp_to_color_minmax (Some 1000) = (255, 0, 220)"
proof -
  have h: "snd (hd stops) = (132, 0, 168)" and l: "snd (last stops) = (255, 0, 220)"
    by (simp_all add: stops_def)
  show ?thesis
    by (simp add: temp_to_color_minmax_eq stops_minmax_eq h l temp_to_color_low temp_to_color_high)
qed

theorem temp_to_color_clamps_witness:
  "(-100 :: real) \<le> -10 \<and> temp_to_color (Some (-100)) = (132, 0, 168)
   \<and> (50 :: real) \<le> 1000 \<and> temp_to_color (Some 1000) = (255, 0, 220)"
  using temp_to_color_clamps[of "-100"] temp_to_color_clamps[of 1000]
  by (simp add: stops_def)

text \<open>
  Claim C10. The gradient engines of the two programs are extensionally equal: on every
  input, the absent value included, \<open>temp_to_color\<close> of
  \<^verbatim>\<open>generar_mapa_baleares.py\<close> and of \<^verbatim>\<open>generar_minmax_baleares.py\<close> return the same
  triple.
\<close>

theorem temp_to_color_programs_agree: "temp_to_color_minmax temp = temp_to_color temp"
  unfolding temp_to_color_def temp_to_color_minmax_def stops_minmax_eq ..

section \<open>Properties of the projection engine\<close>




lemma merc_arg_bounds:
  assumes "-89.9 \<le> lat" and "lat \<le> 89.9"
  shows "0 < pi / 4 + radians lat / 2" and "pi / 4 + radians lat / 2 < pi / 2"
proof -
  have eq: "pi / 4 + radians lat / 2 = pi * ((90 + lat) / 360)"
    by (simp add: radians_def field_simps)
  have "0 < (90 + lat) / 360" using assms by simp
  then show "0 < pi / 4 + radians lat / 2"
    unfolding eq by (simp add: pi_gt_zero)
  have "(90 + lat) / 360 < 1 / 2" using assms by simp
  then have "pi * ((90 + lat) / 360) < pi * (1 / 2)"
    using pi_gt_zero by (simp only: mult_less_cancel_left_pos)
  then show "pi / 4 + radians lat / 2 < pi / 2"
    unfolding eq by simp
qed

lemma merc_tan_pos:
  assumes "-89.9 \<le> lat" and "lat \<le> 89.9"
  shows "0 < tan (pi / 4 + radians lat / 2)"
  using merc_arg_bounds[OF assms] by (simp add: tan_gt_zero)

lemma lat_to_merc_y_log_arg: "0 < tan (pi / 4 + radians (max (min lat 89.9) (-89.9)) / 2)"
  by (rule merc_tan_pos) simp_all



lemma sec_tan_half:
  assumes "- (pi / 2) < p" and "p < pi / 2"
  shows "tan p + 1 / cos p = tan (pi / 4 + p / 2)"
proof -
  define x where "x = pi / 4 + p / 2"
  have p: "p = 2 * x - pi / 2" by (simp add: x_def)
  have x: "0 < x" "x < pi / 2" using assms by (simp_all add: x_def)
  have cx: "0 < cos x" using x by (simp add: cos_gt_zero_pi)
  have sx: "0 < sin x" using x pi_gt_zero by (intro sin_gt_zero) linarith+
  have sp: "sin p = - cos (2 * x)" unfolding p by (simp add: sin_diff)
  have cp: "cos p = sin (2 * x)" unfolding p by (simp add: cos_diff)
  have c2: "1 - cos (2 * x) = 2 * sin x * sin x"
    using sin_cos_squared_add[of x] by (simp add: cos_double power2_eq_square)
  have s2: "sin (2 * x) = 2 * sin x * cos x" by (simp add: sin_double)
  have "tan p + 1 / cos p = (sin p + 1) / cos p"
    by (simp add: tan_def add_divide_distrib)
  also have "\<dots> = (2 * sin x * sin x) / (2 * sin x * cos x)"
    using sp cp c2 s2 by simp
  also have "\<dots> = sin x / cos x"
    using sx cx by simp
  finally show ?thesis by (simp add: tan_def x_def)
qed

lemma py_int_floor: "0 \<le> x \<Longrightarrow> py_int x = \<lfloor>x\<rfloor>"
  by (simp add: py_int_def)

lemma py_int_nonneg: "0 \<le> x \<Longrightarrow> 0 \<le> py_int x"
  by (simp add: py_int_def)









lemma build_base_map_static_transform:
  "build_base_map_static E lat_min lat_max lon_min lon_max w h s = (Inr (img, tr), s')
   \<Longrightarrow> tr = bbox_transform lat_min lat_max lon_min lon_max w h"
  by (auto simp: build_base_map_static_def bbox_transform_def split: prod.splits sum.splits)

lemma build_base_map_tiles_with_transform:
  "build_base_map_tiles_with dl E lat_min lat_max lon_min lon_max zoom w h s = (Inr (img, tr), s')
   \<Longrightarrow> tr = bbox_transform lat_min lat_max lon_min lon_max w h"
  by (auto simp: build_base_map_tiles_with_def bbox_transform_def Let_def
      split: prod.splits sum.splits if_splits)

section \<open>Properties of the tile mosaic\<close>

lemma get_image_log: "snd (get_image E req s) = s\<lparr>requests := requests s @ [req]\<rparr>"
  by (simp add: get_image_def session_get_def split: sum.splits)

lemma download_tile_total:
  "\<exists>img. download_tile E z x y s = (Inr img, s\<lparr>requests := requests s @ [Tile z x y]\<rparr>)"
proof -
  obtain r s' where g: "get_image E (Tile z x y) s = (r, s')" by (cases "get_image E (Tile z x y) s")
  with get_image_log[of E "Tile z x y" s] have "s' = s\<lparr>requests := requests s @ [Tile z x y]\<rparr>" by simp
  with g show ?thesis by (cases r) (simp_all add: download_tile_def)
qed

lemma download_tile_minmax_total:
  "\<exists>img. download_tile_minmax E z x y s = (Inr img, s\<lparr>requests := requests s @ [Tile z x y]\<rparr>)"
proof -
  obtain r s' where g: "get_image E (Tile z x y) s = (r, s')" by (cases "get_image E (Tile z x y) s")
  with get_image_log[of E "Tile z x y" s] have "s' = s\<lparr>requests := requests s @ [Tile z x y]\<rparr>" by simp
  with g show ?thesis by (cases r) (simp_all add: download_tile_minmax_def)
qed

lemma tile_column_log:
  assumes dl: "\<And>z x y s. \<exists>img. dl z x y s = (Inr img, s\<lparr>requests := requests s @ [Tile z x y]\<rparr>)"
  shows "\<exists>canvas'. tile_column dl zoom x0 y0 tx tys canvas s
           = (Inr canvas', s\<lparr>requests := requests s @ map (\<lambda>ty. Tile zoom tx ty) tys\<rparr>)
         \<and> im_size canvas' = im_size canvas"
proof (induction tys arbitrary: canvas s)
  case Nil
  show ?case by simp
next
  case (Cons ty tys)
  obtain tile where t: "dl zoom tx ty s = (Inr tile, s\<lparr>requests := requests s @ [Tile zoom tx ty]\<rparr>)"
    using dl by blast
  let ?c = "paste canvas tile ((tx - x0) * TILE_SIZE, (ty - y0) * TILE_SIZE)"
  let ?s = "s\<lparr>requests := requests s @ [Tile zoom tx ty]\<rparr>"
  obtain canvas' where c: "tile_column dl zoom x0 y0 tx tys ?c ?s
           = (Inr canvas', ?s\<lparr>requests := requests ?s @ map (\<lambda>ty. Tile zoom tx ty) tys\<rparr>)"
         "im_size canvas' = im_size ?c"
    using Cons.IH[of ?c ?s] by blast
  show ?case
    using t c by (simp add: Let_def paste_def)
qed

lemma tile_columns_log:
  assumes dl: "\<And>z x y s. \<exists>img. dl z x y s = (Inr img, s\<lparr>requests := requests s @ [Tile z x y]\<rparr>)"
  shows "\<exists>canvas'. tile_columns dl zoom x0 y0 txs tys canvas s
           = (Inr canvas', s\<lparr>requests := requests s
                 @ concat (map (\<lambda>tx. map (\<lambda>ty. Tile zoom tx ty) tys) txs)\<rparr>)
         \<and> im_size canvas' = im_size canvas"
proof (induction txs arbitrary: canvas s)
  case Nil
  show ?case by simp
next
  case (Cons tx txs)
  let ?s = "s\<lparr>requests := requests s @ map (\<lambda>ty. Tile zoom tx ty) tys\<rparr>"
  obtain c1 where c1: "tile_column dl zoom x0 y0 tx tys canvas s = (Inr c1, ?s)" "im_size c1 = im_size canvas"
    using tile_column_log[of dl zoom x0 y0 tx tys canvas s, OF dl] by blast
  obtain c2 where c2: "tile_columns dl zoom x0 y0 txs tys c1 ?s
           = (Inr c2, ?s\<lparr>requests := requests ?s @ concat (map (\<lambda>tx. map (\<lambda>ty. Tile zoom tx ty) tys) txs)\<rparr>)"
         "im_size c2 = im_size c1"
    using Cons.IH[of c1 ?s] by blast
  show ?case using c1 c2 by simp
qed

lemma column_major_requests:
  "concat (map (\<lambda>tx. map (\<lambda>ty. Tile zoom tx ty) [y_lo..y_hi]) [x_lo..x_hi])
   = map (\<lambda>(x, y). Tile zoom x y) (column_major x_lo x_hi y_lo y_hi)"
  by (simp add: column_major_def map_concat comp_def)

lemma tiles_with_success:
  assumes dl: "\<And>z x y s. \<exists>img. dl z x y s = (Inr img, s\<lparr>requests := requests s @ [Tile z x y]\<rparr>)"
    and px1: "lonlat_to_pixel lon_min lat_min zoom = Inr (px_min_x, px_max_y)"
    and px2: "lonlat_to_pixel lon_max lat_max zoom = Inr (px_max_x, px_min_y)"
    and run: "build_base_map_tiles_with dl E lat_min lat_max lon_min lon_max zoom w h s = (Inr (img, tr), s')"
  shows "s' = s\<lparr>requests := requests s @ map (\<lambda>(x, y). Tile zoom x y)
                 (column_major \<lfloor>px_min_x / of_int TILE_SIZE\<rfloor> \<lfloor>px_max_x / of_int TILE_SIZE\<rfloor>
                               \<lfloor>px_min_y / of_int TILE_SIZE\<rfloor> \<lfloor>px_max_y / of_int TILE_SIZE\<rfloor>)\<rparr>"
    and "im_size img = (w, h)"
proof -
  let ?xlo = "\<lfloor>px_min_x / of_int TILE_SIZE\<rfloor>" and ?xhi = "\<lfloor>px_max_x / of_int TILE_SIZE\<rfloor>"
  let ?ylo = "\<lfloor>px_min_y / of_int TILE_SIZE\<rfloor>" and ?yhi = "\<lfloor>px_max_y / of_int TILE_SIZE\<rfloor>"
  let ?sz = "((?xhi - ?xlo + 1) * TILE_SIZE, (?yhi - ?ylo + 1) * TILE_SIZE)"
  let ?s1 = "s\<lparr>requests := requests s @ map (\<lambda>(x, y). Tile zoom x y) (column_major ?xlo ?xhi ?ylo ?yhi)\<rparr>"
  obtain canvas where new: "image_new ?sz (255, 255, 255) = Inr canvas"
    using run by (cases "image_new ?sz (255, 255, 255)")
      (simp_all add: build_base_map_tiles_with_def px1 px2 Let_def)
  obtain c1 where loop: "tile_columns dl zoom ?xlo ?ylo [?xlo..?xhi] [?ylo..?yhi] canvas s = (Inr c1, ?s1)"
    using tile_columns_log[of dl zoom ?xlo ?ylo "[?xlo..?xhi]" "[?ylo..?yhi]" canvas s, OF dl]
    unfolding column_major_requests by blast
  let ?box = "(py_int (px_min_x - of_int (?xlo * TILE_SIZE)), py_int (px_min_y - of_int (?ylo * TILE_SIZE)),
               py_int (px_min_x - of_int (?xlo * TILE_SIZE)) + py_int (px_max_x - px_min_x),
               py_int (px_min_y - of_int (?ylo * TILE_SIZE)) + py_int (px_max_y - px_min_y))"
  have rest: "(case crop c1 ?box of
            Inl e \<Rightarrow> (Inl e, ?s1)
          | Inr canvas \<Rightarrow>
              if \<not> has_resampling E then (Inl AttributeError, ?s1)
              else (case resize canvas (w, h) of
                      Inl e \<Rightarrow> (Inl e, ?s1)
                    | Inr base_map \<Rightarrow>
                        (Inr (base_map,
                              \<lparr>min_x = lon_to_merc_x lon_min, max_x = lon_to_merc_x lon_max,
                               min_y = lat_to_merc_y lat_min, max_y = lat_to_merc_y lat_max,
                               width = w, height = h\<rparr>), ?s1))) = (Inr (img, tr), s')"
    using run by (simp add: build_base_map_tiles_with_def px1 px2 Let_def new loop)
  then show "s' = ?s1"
    by (auto split: sum.splits if_splits)
  from rest show "im_size img = (w, h)"
    by (auto simp: resize_def split: sum.splits if_splits)
qed

lemma radians_bounds:
  assumes "-90 < lat" and "lat < 90"
  shows "- (pi / 2) < radians lat" and "radians lat < pi / 2"
proof -
  have eq: "radians lat = pi * (lat / 180)" by (simp add: radians_def)
  have "pi * (- (1 / 2)) < pi * (lat / 180)"
    using assms pi_gt_zero by (simp only: mult_less_cancel_left_pos)
  then show "- (pi / 2) < radians lat" unfolding eq by simp
  have "pi * (lat / 180) < pi * (1 / 2)"
    using assms pi_gt_zero by (simp only: mult_less_cancel_left_pos)
  then show "radians lat < pi / 2" unfolding eq by simp
qed

lemma lonlat_to_tile_ok:
  assumes "-90 < lat" and "lat < 90"
  shows "lonlat_to_tile lon lat zoom =
           Inr ((lon + 180) / 360 * 2 powr of_int zoom,
                (1 - ln (tan (pi / 4 + radians lat / 2)) / pi) / 2 * 2 powr of_int zoom)"
proof -
  note b = radians_bounds[OF assms]
  have c: "0 < cos (radians lat)" using b by (simp add: cos_gt_zero_pi)
  have h: "tan (radians lat) + 1 / cos (radians lat) = tan (pi / 4 + radians lat / 2)"
    using sec_tan_half[OF b] .
  have "0 < pi / 4 + radians lat / 2" "pi / 4 + radians lat / 2 < pi / 2" using b by simp_all
  then have "0 < tan (pi / 4 + radians lat / 2)" by (simp add: tan_gt_zero)
  then show ?thesis
    using c h by (simp add: lonlat_to_tile_def Let_def)
qed

lemma merc_ln_mono:
  assumes "-90 < a" and "a \<le> b" and "b < 90"
  shows "ln (tan (pi / 4 + radians a / 2)) \<le> ln (tan (pi / 4 + radians b / 2))"
proof (cases "a = b")
  case True
  then show ?thesis by simp
next
  case False
  with assms have ab: "a < b" by simp
  have a: "-90 < a" "a < 90" and b: "-90 < b" "b < 90" using assms by simp_all
  note ra = radians_bounds[OF a] and rb = radians_bounds[OF b]
  have lt: "pi / 4 + radians a / 2 < pi / 4 + radians b / 2"
    using ab by (simp add: radians_def)
  have pa: "0 < pi / 4 + radians a / 2" using ra by simp
  have pb: "pi / 4 + radians b / 2 < pi / 2" using rb by simp
  have "tan (pi / 4 + radians a / 2) < tan (pi / 4 + radians b / 2)"
    using pa pb lt pi_gt_zero by (intro tan_monotone) linarith+
  moreover have "0 < tan (pi / 4 + radians a / 2)"
    using pa lt pb by (intro tan_gt_zero) linarith+
  ultimately show ?thesis by simp
qed

lemma ytile_antimono:
  assumes "-90 < a" and "a \<le> b" and "b < 90"
  shows "(1 - ln (tan (pi / 4 + radians b / 2)) / pi) / 2 * 2 powr of_int zoom
       \<le> (1 - ln (tan (pi / 4 + radians a / 2)) / pi) / 2 * 2 powr of_int zoom"
proof -
  define A where "A = ln (tan (pi / 4 + radians a / 2)) / pi"
  define B where "B = ln (tan (pi / 4 + radians b / 2)) / pi"
  have "A \<le> B"
    unfolding A_def B_def using merc_ln_mono[OF assms] pi_gt_zero by (simp add: divide_right_mono)
  then have "(1 - B) / 2 \<le> (1 - A) / 2" by simp
  moreover have "0 \<le> (2::real) powr of_int zoom" by simp
  ultimately have "(1 - B) / 2 * 2 powr of_int zoom \<le> (1 - A) / 2 * 2 powr of_int zoom"
    by (rule mult_right_mono)
  then show ?thesis unfolding A_def B_def .
qed

lemma xtile_mono:
  assumes "a \<le> (b::real)"
  shows "(a + 180) / 360 * 2 powr of_int zoom \<le> (b + 180) / 360 * 2 powr of_int zoom"
proof -
  have "(a + 180) / 360 \<le> (b + 180) / 360" using assms by simp
  moreover have "0 \<le> (2::real) powr of_int zoom" by simp
  ultimately show ?thesis by (rule mult_right_mono)
qed

lemma tile_floor: "\<lfloor>t * real_of_int TILE_SIZE / real_of_int TILE_SIZE\<rfloor> = \<lfloor>t\<rfloor>"
  by (simp add: TILE_SIZE_def)

lemma lonlat_to_tile_closed:
  "-90 < lat \<Longrightarrow> lat < 90 \<Longrightarrow> lonlat_to_tile lon lat zoom = Inr (xtile_of lon zoom, ytile_of lat zoom)"
  by (simp add: lonlat_to_tile_ok xtile_of_def ytile_of_def)

lemma lonlat_to_pixel_closed:
  "-90 < lat \<Longrightarrow> lat < 90 \<Longrightarrow>
   lonlat_to_pixel lon lat zoom
     = Inr (xtile_of lon zoom * of_int TILE_SIZE, ytile_of lat zoom * of_int TILE_SIZE)"
  by (simp add: lonlat_to_pixel_def lonlat_to_tile_closed tile_to_pixel_def)

lemma tile_index_closed:
  "-90 < lat \<Longrightarrow> lat < 90 \<Longrightarrow> tile_index lon lat zoom = Inr (\<lfloor>xtile_of lon zoom\<rfloor>, \<lfloor>ytile_of lat zoom\<rfloor>)"
  by (simp add: tile_index_def lonlat_to_tile_closed)

lemma xtile_of_mono: "a \<le> b \<Longrightarrow> xtile_of a zoom \<le> xtile_of b zoom"
  unfolding xtile_of_def by (rule xtile_mono)

lemma ytile_of_antimono: "-90 < a \<Longrightarrow> a \<le> b \<Longrightarrow> b < 90 \<Longrightarrow> ytile_of b zoom \<le> ytile_of a zoom"
  unfolding ytile_of_def by (rule ytile_antimono)

lemma cover_corners:
  assumes "x_lo \<le> x_hi" and "y_lo \<le> y_hi"
  shows "cover [(x_lo, y_hi), (x_lo, y_lo), (x_hi, y_hi), (x_hi, y_lo)] = (x_lo, x_hi, y_lo, y_hi)"
  using assms by (simp add: cover_def min_def max_def)

lemma column_major_product: "column_major x_lo x_hi y_lo y_hi = List.product [x_lo..x_hi] [y_lo..y_hi]"
  by (simp add: column_major_def product_concat_map)

lemma column_major_distinct: "distinct (column_major x_lo x_hi y_lo y_hi)"
  by (simp add: column_major_product distinct_product)

lemma column_major_set: "set (column_major x_lo x_hi y_lo y_hi) = {x_lo..x_hi} \<times> {y_lo..y_hi}"
  by (auto simp: column_major_def)

lemma tiles_with_returns:
  assumes dl: "\<And>z x y s. \<exists>img. dl z x y s = (Inr img, s\<lparr>requests := requests s @ [Tile z x y]\<rparr>)"
    and E: "has_resampling E" and w: "1 \<le> w" and h: "1 \<le> h"
    and box: "lon_min \<le> lon_max" "-90 < lat_min" "lat_min \<le> lat_max" "lat_max < 90"
  shows "\<exists>img tr s'. build_base_map_tiles_with dl E lat_min lat_max lon_min lon_max zoom w h s
           = (Inr (img, tr), s')"
proof -
  let ?T = "real_of_int TILE_SIZE"
  let ?x0 = "xtile_of lon_min zoom * ?T" and ?x1 = "xtile_of lon_max zoom * ?T"
  let ?y0 = "ytile_of lat_max zoom * ?T" and ?y1 = "ytile_of lat_min zoom * ?T"
  have lat: "-90 < lat_max" "lat_min < 90" using box by simp_all
  have px1: "lonlat_to_pixel lon_min lat_min zoom = Inr (?x0, ?y1)"
    using box lat by (simp add: lonlat_to_pixel_closed)
  have px2: "lonlat_to_pixel lon_max lat_max zoom = Inr (?x1, ?y0)"
    using box lat by (simp add: lonlat_to_pixel_closed)
  have T: "0 < ?T" by (simp add: TILE_SIZE_def)
  have x: "?x0 \<le> ?x1" using xtile_of_mono[OF box(1), of zoom] T by simp
  have y: "?y0 \<le> ?y1" using ytile_of_antimono[OF box(2,3,4), of zoom] T by simp
  let ?xlo = "\<lfloor>?x0 / ?T\<rfloor>" and ?xhi = "\<lfloor>?x1 / ?T\<rfloor>" and ?ylo = "\<lfloor>?y0 / ?T\<rfloor>" and ?yhi = "\<lfloor>?y1 / ?T\<rfloor>"
  have fx: "?xlo \<le> ?xhi" using x T by (intro floor_mono divide_right_mono) simp_all
  have fy: "?ylo \<le> ?yhi" using y T by (intro floor_mono divide_right_mono) simp_all
  let ?sz = "((?xhi - ?xlo + 1) * TILE_SIZE, (?yhi - ?ylo + 1) * TILE_SIZE)"
  let ?canvas = "\<lparr>im_size = ?sz, im_ops = [Fill (255, 255, 255)]\<rparr>"
  have new: "image_new ?sz (255, 255, 255) = Inr ?canvas"
    using fx fy by (simp add: image_new_def TILE_SIZE_def)
  obtain c1 s1 where loop: "tile_columns dl zoom ?xlo ?ylo [?xlo..?xhi] [?ylo..?yhi] ?canvas s = (Inr c1, s1)"
    using tile_columns_log[of dl zoom ?xlo ?ylo "[?xlo..?xhi]" "[?ylo..?yhi]" ?canvas s, OF dl] by blast
  let ?box = "(py_int (?x0 - of_int (?xlo * TILE_SIZE)), py_int (?y0 - of_int (?ylo * TILE_SIZE)),
               py_int (?x0 - of_int (?xlo * TILE_SIZE)) + py_int (?x1 - ?x0),
               py_int (?y0 - of_int (?ylo * TILE_SIZE)) + py_int (?y1 - ?y0))"
  have bw: "0 \<le> py_int (?x1 - ?x0)" using x by (intro py_int_nonneg) simp
  have bh: "0 \<le> py_int (?y1 - ?y0)" using y by (intro py_int_nonneg) simp
  obtain c2 where cr: "crop c1 ?box = Inr c2"
    using bw bh by (simp add: crop_def)
  obtain c3 where rs: "resize c2 (w, h) = Inr c3"
    using w h by (simp add: resize_def)
  show ?thesis
    unfolding build_base_map_tiles_with_def px1 px2 Let_def sum.case prod.case new loop cr rs
    using E by simp
qed

lemma tiles_with_fetch_cover:
  assumes dl: "\<And>z x y s. \<exists>img. dl z x y s = (Inr img, s\<lparr>requests := requests s @ [Tile z x y]\<rparr>)"
    and box: "lon_min \<le> lon_max" "-90 < lat_min" "lat_min \<le> lat_max" "lat_max < 90"
    and run: "build_base_map_tiles_with dl E lat_min lat_max lon_min lon_max zoom w h s = (Inr (img, tr), s')"
  shows "\<exists>sw nw se ne x_lo x_hi y_lo y_hi.
      tile_index lon_min lat_min zoom = Inr sw \<and> tile_index lon_min lat_max zoom = Inr nw
    \<and> tile_index lon_max lat_min zoom = Inr se \<and> tile_index lon_max lat_max zoom = Inr ne
    \<and> cover [sw, nw, se, ne] = (x_lo, x_hi, y_lo, y_hi)
    \<and> requests s' = requests s @ map (\<lambda>(x, y). Tile zoom x y) (column_major x_lo x_hi y_lo y_hi)
    \<and> distinct (column_major x_lo x_hi y_lo y_hi)
    \<and> set (column_major x_lo x_hi y_lo y_hi) = {x_lo..x_hi} \<times> {y_lo..y_hi}
    \<and> im_size img = (w, h)"
proof -
  let ?T = "real_of_int TILE_SIZE"
  let ?xlo = "\<lfloor>xtile_of lon_min zoom\<rfloor>" and ?xhi = "\<lfloor>xtile_of lon_max zoom\<rfloor>"
  let ?ylo = "\<lfloor>ytile_of lat_max zoom\<rfloor>" and ?yhi = "\<lfloor>ytile_of lat_min zoom\<rfloor>"
  have lat: "-90 < lat_max" "lat_min < 90" using box by simp_all
  have px1: "lonlat_to_pixel lon_min lat_min zoom = Inr (xtile_of lon_min zoom * ?T, ytile_of lat_min zoom * ?T)"
    using box lat by (simp add: lonlat_to_pixel_closed)
  have px2: "lonlat_to_pixel lon_max lat_max zoom = Inr (xtile_of lon_max zoom * ?T, ytile_of lat_max zoom * ?T)"
    using box lat by (simp add: lonlat_to_pixel_closed)
  have req: "requests s' = requests s @ map (\<lambda>(x, y). Tile zoom x y) (column_major ?xlo ?xhi ?ylo ?yhi)"
    using tiles_with_success(1)[OF dl px1 px2 run] by (simp add: TILE_SIZE_def)
  have sz: "im_size img = (w, h)"
    using tiles_with_success(2)[OF dl px1 px2 run] .
  have fx: "?xlo \<le> ?xhi" using xtile_of_mono[OF box(1)] by (rule floor_mono)
  have fy: "?ylo \<le> ?yhi" using ytile_of_antimono[OF box(2,3,4)] by (rule floor_mono)
  have idx: "tile_index lon_min lat_min zoom = Inr (?xlo, ?yhi)" "tile_index lon_min lat_max zoom = Inr (?xlo, ?ylo)"
    "tile_index lon_max lat_min zoom = Inr (?xhi, ?yhi)" "tile_index lon_max lat_max zoom = Inr (?xhi, ?ylo)"
    using box lat by (simp_all add: tile_index_closed)
  show ?thesis
    using idx cover_corners[OF fx fy] req sz column_major_distinct column_major_set by blast
qed

text \<open>
  Claim C5, as amended. For every bounding box with \<open>lon_min \<le> lon_max\<close> and
  \<open>-90 < lat_min \<le> lat_max < 90\<close> and every zoom, a run of \<open>build_base_map_tiles\<close>
  that returns has sent, after the requests made before it, exactly one request for
  each tile of the least rectangle of indices that covers the tiles of the four corners
  of the box, column after column (the outer loop runs over \<open>x\<close>, the inner one over
  \<open>y\<close>), and the raster it returns has exactly the requested size.
\<close>

theorem tiles_fetch_covering_rectangle:
  assumes "lon_min \<le> lon_max" and "-90 < lat_min" and "lat_min \<le> lat_max" and "lat_max < 90"
    and "build_base_map_tiles E lat_min lat_max lon_min lon_max zoom w h s = (Inr (img, tr), s')"
  shows "\<exists>sw nw se ne x_lo x_hi y_lo y_hi.
      tile_index lon_min lat_min zoom = Inr sw \<and> tile_index lon_min lat_max zoom = Inr nw
    \<and> tile_index lon_max lat_min zoom = Inr se \<and> tile_index lon_max lat_max zoom = Inr ne
    \<and> cover [sw, nw, se, ne] = (x_lo, x_hi, y_lo, y_hi)
    \<and> requests s' = requests s @ map (\<lambda>(x, y). Tile zoom x y) (column_major x_lo x_hi y_lo y_hi)
    \<and> distinct (column_major x_lo x_hi y_lo y_hi)
    \<and> set (column_major x_lo x_hi y_lo y_hi) = {x_lo..x_hi} \<times> {y_lo..y_hi}
    \<and> im_size img = (w, h)"
  using tiles_with_fetch_cover[of "download_tile E", OF download_tile_total assms(1-4)] assms(5)
  unfolding build_base_map_tiles_def by blast

text \<open>The same for \<open>build_base_map_tiles\<close> of the second program, on its own box and zoom.\<close>

lemma tiles_minmax_fetch_covering_rectangle:
  assumes "build_base_map_tiles_minmax E w h s = (Inr (img, tr), s')"
  shows "\<exists>sw nw se ne x_lo x_hi y_lo y_hi.
      tile_index LON_MIN LAT_MIN ZOOM = Inr sw \<and> tile_index LON_MIN LAT_MAX ZOOM = Inr nw
    \<and> tile_index LON_MAX LAT_MIN ZOOM = Inr se \<and> tile_index LON_MAX LAT_MAX ZOOM = Inr ne
    \<and> cover [sw, nw, se, ne] = (x_lo, x_hi, y_lo, y_hi)
    \<and> requests s' = requests s @ map (\<lambda>(x, y). Tile ZOOM x y) (column_major x_lo x_hi y_lo y_hi)
    \<and> distinct (column_major x_lo x_hi y_lo y_hi)
    \<and> set (column_major x_lo x_hi y_lo y_hi) = {x_lo..x_hi} \<times> {y_lo..y_hi}
    \<and> im_size img = (w, h)"
proof -
  have box: "LON_MIN \<le> LON_MAX" "-90 < LAT_MIN" "LAT_MIN \<le> LAT_MAX" "LAT_MAX < 90"
    by (simp_all add: LON_MIN_def LON_MAX_def LAT_MIN_def LAT_MAX_def)
  show ?thesis
    using tiles_with_fetch_cover[of "download_tile_minmax E", OF download_tile_minmax_total box] assms
    unfolding build_base_map_tiles_minmax_def by blast
qed

lemma xtile_west: "xtile_of (-90) 1 = 1 / 2"
  by (simp add: xtile_of_def)

lemma xtile_east: "xtile_of 90 1 = 3 / 2"
  by (simp add: xtile_of_def)

lemma ytile_equator: "ytile_of 0 1 = 1"
  by (simp add: ytile_of_def radians_def tan_45)

lemma tan_3pi8: "tan (pi / 4 + radians 45 / 2) = 1 + sqrt 2"
proof -
  have r: "radians 45 = pi / 4" by (simp add: radians_def)
  have "- (pi / 2) < pi / 4" "pi / 4 < pi / 2" using pi_gt_zero by simp_all
  from sec_tan_half[OF this] have "tan (pi / 4 + pi / 4 / 2) = tan (pi / 4) + 1 / cos (pi / 4)" by simp
  also have "\<dots> = 1 + 2 / sqrt 2" by (simp add: tan_45 cos_45)
  also have "2 / sqrt 2 = sqrt 2" by (simp add: real_div_sqrt)
  finally show ?thesis by (simp add: r)
qed

lemma ytile_45: "0 \<le> ytile_of 45 1" "ytile_of 45 1 < 1"
proof -
  have s2: "0 < sqrt 2" "sqrt 2 < 2"
    by (simp_all add: real_less_lsqrt)
  have pos: "0 < ln (1 + sqrt 2)" using s2 by (intro ln_gt_zero) simp
  have p: "0 < 1 + sqrt 2" using real_sqrt_ge_zero[of 2] by linarith
  have "ln (1 + sqrt 2) \<le> (1 + sqrt 2) - 1" using p by (rule ln_le_minus_one)
  also have "\<dots> < 2" using s2 by simp
  also have "\<dots> \<le> pi" by (rule pi_ge_two)
  finally have lt: "ln (1 + sqrt 2) < pi" .
  have y: "ytile_of 45 1 = 1 - ln (1 + sqrt 2) / pi"
    by (simp add: ytile_of_def tan_3pi8)
  have "ln (1 + sqrt 2) / pi < 1" using lt pi_gt_zero by simp
  then show "0 \<le> ytile_of 45 1" unfolding y by simp
  have "0 < ln (1 + sqrt 2) / pi" using pos pi_gt_zero by simp
  then show "ytile_of 45 1 < 1" unfolding y by simp
qed

lemma ytile_45_floor: "\<lfloor>ytile_of 45 1\<rfloor> = 0"
  using ytile_45 by (simp add: floor_eq_iff)

lemma sample_corners:
  "tile_index (-90) 0 1 = Inr (0, 1)" "tile_index (-90) 45 1 = Inr (0, 0)"
  "tile_index 90 0 1 = Inr (1, 1)" "tile_index 90 45 1 = Inr (1, 0)"
  by (simp_all add: tile_index_closed xtile_west xtile_east ytile_equator ytile_45_floor)

lemma sample_cover: "cover [(0, 1), (0, 0), (1, 1), (1, 0)] = (0, 1, 0, 1)"
  by (simp add: cover_def)

lemma upto_0_1: "[0..1::int] = [0, 1]"
  by (simp add: upto.simps)

lemma sample_column_major: "column_major 0 1 0 1 = [(0, 0), (0, 1), (1, 0), (1, 1)]"
  by (simp add: column_major_def upto_0_1)

lemma sample_row_major: "row_major 0 1 0 1 = [(0, 0), (1, 0), (0, 1), (1, 1)]"
  by (simp add: row_major_def upto_0_1)

lemma sample_returns:
  "\<exists>img tr s'. build_base_map_tiles E 0 45 (-90) 90 1 100 100 s = (Inr (img, tr), s') \<or> \<not> has_resampling E"
proof (cases "has_resampling E")
  case True
  then show ?thesis
    unfolding build_base_map_tiles_def
    using tiles_with_returns[of "download_tile E" E 100 100 "-90" 90 0 45 1 s, OF download_tile_total]
    by auto
next
  case False
  then show ?thesis by simp
qed

lemma sample_run:
  "\<exists>img tr s'. build_base_map_tiles env_offline 0 45 (-90) 90 1 100 100 world0 = (Inr (img, tr), s')
     \<and> requests s' = [Tile 1 0 0, Tile 1 0 1, Tile 1 1 0, Tile 1 1 1] \<and> im_size img = (100, 100)"
proof -
  have "has_resampling env_offline" by (simp add: env_offline_def)
  with sample_returns[of env_offline world0]
  obtain img tr s' where run: "build_base_map_tiles env_offline 0 45 (-90) 90 1 100 100 world0 = (Inr (img, tr), s')"
    by blast
  have run': "build_base_map_tiles_with (download_tile env_offline) env_offline 0 45 (-90) 90 1 100 100 world0 = (Inr (img, tr), s')"
    using run by (simp add: build_base_map_tiles_def)
  from tiles_with_fetch_cover[of "download_tile env_offline", OF download_tile_total _ _ _ _ run']
  obtain sw nw se ne x_lo x_hi y_lo y_hi where
    c: "tile_index (-90) 0 1 = Inr sw" "tile_index (-90) 45 1 = Inr nw"
       "tile_index 90 0 1 = Inr se" "tile_index 90 45 1 = Inr ne"
       "cover [sw, nw, se, ne] = (x_lo, x_hi, y_lo, y_hi)"
       "requests s' = requests world0 @ map (\<lambda>(x, y). Tile 1 x y) (column_major x_lo x_hi y_lo y_hi)"
       "im_size img = (100, 100)"
    by auto
  from c(1-4) have e: "sw = (0, 1)" "nw = (0, 0)" "se = (1, 1)" "ne = (1, 0)"
    by (auto simp: sample_corners)
  from c(5) have "(x_lo, x_hi, y_lo, y_hi) = (0, 1, 0, 1)"
    unfolding e sample_cover by simp
  with c(6,7) have "requests s' = [Tile 1 0 0, Tile 1 0 1, Tile 1 1 0, Tile 1 1 1]" "im_size img = (100, 100)"
    by (simp_all add: sample_column_major world0_def)
  with run show ?thesis by blast
qed

text \<open>
  The claim as stated fails on the order: for the box from \<open>(-90, 0)\<close> to \<open>(90, 45)\<close>
  at zoom 1, whose corners lie in the four tiles \<open>(0, 0)\<close>, \<open>(0, 1)\<close>, \<open>(1, 0)\<close>,
  \<open>(1, 1)\<close>, the tile \<open>(0, 1)\<close> below the first one is requested second, where
  row-major order asks for its right neighbour \<open>(1, 0)\<close>.
\<close>

theorem tiles_row_major_counterexample:
  "\<not> isl (fst (build_base_map_tiles env_offline 0 45 (-90) 90 1 100 100 world0))
   \<and> tile_index (-90) 0 1 = Inr (0, 1) \<and> tile_index (-90) 45 1 = Inr (0, 0)
   \<and> tile_index 90 0 1 = Inr (1, 1) \<and> tile_index 90 45 1 = Inr (1, 0)
   \<and> requests (snd (build_base_map_tiles env_offline 0 45 (-90) 90 1 100 100 world0))
        = [Tile 1 0 0, Tile 1 0 1, Tile 1 1 0, Tile 1 1 1]
   \<and> map (\<lambda>(x, y). Tile 1 x y) (row_major 0 1 0 1) = [Tile 1 0 0, Tile 1 1 0, Tile 1 0 1, Tile 1 1 1]"
proof -
  from sample_run obtain img tr s' where
    "build_base_map_tiles env_offline 0 45 (-90) 90 1 100 100 world0 = (Inr (img, tr), s')"
    "requests s' = [Tile 1 0 0, Tile 1 0 1, Tile 1 1 0, Tile 1 1 1]"
    by blast
  then show ?thesis
    by (simp add: sample_corners sample_row_major)
qed

theorem tiles_fetch_covering_rectangle_witness:
  "\<exists>img tr s'. build_base_map_tiles env_offline 0 45 (-90) 90 1 100 100 world0 = (Inr (img, tr), s')
     \<and> requests s' = [Tile 1 0 0, Tile 1 0 1, Tile 1 1 0, Tile 1 1 1] \<and> im_size img = (100, 100)"
proof -
  have "has_resampling env_offline" by (simp add: env_offline_def)
  with sample_returns[of env_offline world0]
  obtain img tr s' where run: "build_base_map_tiles env_offline 0 45 (-90) 90 1 100 100 world0 = (Inr (img, tr), s')"
    by blast
  from tiles_fetch_covering_rectangle[OF _ _ _ _ run]
  obtain sw nw se ne x_lo x_hi y_lo y_hi where
    c: "tile_index (-90) 0 1 = Inr sw" "tile_index (-90) 45 1 = Inr nw"
       "tile_index 90 0 1 = Inr se" "tile_index 90 45 1 = Inr ne"
       "cover [sw, nw, se, ne] = (x_lo, x_hi, y_lo, y_hi)"
       "requests s' = requests world0 @ map (\<lambda>(x, y). Tile 1 x y) (column_major x_lo x_hi y_lo y_hi)"
       "im_size img = (100, 100)"
    by auto
  from c(1-4) have e: "sw = (0, 1)" "nw = (0, 0)" "se = (1, 1)" "ne = (1, 0)"
    by (auto simp: sample_corners)
  from c(5) have "(x_lo, x_hi, y_lo, y_hi) = (0, 1, 0, 1)"
    unfolding e sample_cover by simp
  with c(6,7) have "requests s' = [Tile 1 0 0, Tile 1 0 1, Tile 1 1 0, Tile 1 1 1]" "im_size img = (100, 100)"
    by (simp_all add: sample_column_major world0_def)
  with run show ?thesis by blast
qed

section \<open>The projection within the canvas and across the two paths\<close>



lemma build_base_map_tiles_transform:
  "build_base_map_tiles E lat_min lat_max lon_min lon_max zoom w h s = (Inr (img, tr), s')
   \<Longrightarrow> tr = bbox_transform lat_min lat_max lon_min lon_max w h"
  unfolding build_base_map_tiles_def by (rule build_base_map_tiles_with_transform)

text \<open>
  Claim C1. Whenever the static path and the tile path both return for the same
  bounding box and size, from whatever state of the world and at whatever zoom, their
  transforms are equal, both being the transform of the requested box and size, and
  \<open>project_point_mercator\<close> gives the same result with either for every point.
\<close>

theorem transforms_path_independent:
  assumes "build_base_map_static E lat_min lat_max lon_min lon_max w h s1 = (Inr (img1, tr1), s1')"
    and "build_base_map_tiles E lat_min lat_max lon_min lon_max zoom w h s2 = (Inr (img2, tr2), s2')"
  shows "tr1 = tr2 \<and> tr1 = bbox_transform lat_min lat_max lon_min lon_max w h
       \<and> project_point_mercator lon lat tr1 = project_point_mercator lon lat tr2"
  using build_base_map_static_transform[OF assms(1)] build_base_map_tiles_transform[OF assms(2)]
  by simp

lemma static_online:
  "build_base_map_static env_online lat_min lat_max lon_min lon_max w h s
   = (Inr (\<lparr>im_size = (w, h), im_ops = []\<rparr>, bbox_transform lat_min lat_max lon_min lon_max w h),
      s\<lparr>requests := requests s @ [StaticMap lon_min lat_min lon_max lat_max w h]\<rparr>)"
  by (simp add: build_base_map_static_def get_image_def session_get_def env_online_def answer_def
      raise_for_status_def image_open_def bbox_transform_def)

text \<open>The same for the two builders of the second program.\<close>

lemma transforms_path_independent_minmax:
  assumes "build_base_map_static_minmax E w h s1 = (Inr (img1, tr1), s1')"
    and "build_base_map_tiles_minmax E w h s2 = (Inr (img2, tr2), s2')"
  shows "tr1 = tr2 \<and> tr1 = bbox_transform LAT_MIN LAT_MAX LON_MIN LON_MAX w h"
proof -
  have "tr1 = bbox_transform LAT_MIN LAT_MAX LON_MIN LON_MAX w h"
    using assms(1) by (auto simp: build_base_map_static_minmax_def bbox_transform_def
        split: prod.splits sum.splits)
  moreover have "tr2 = bbox_transform LAT_MIN LAT_MAX LON_MIN LON_MAX w h"
    using assms(2) unfolding build_base_map_tiles_minmax_def
    by (rule build_base_map_tiles_with_transform)
  ultimately show ?thesis by simp
qed

theorem transforms_path_independent_witness:
  "\<exists>img1 tr1 s1 img2 tr2 s2.
     build_base_map_static env_online 0 45 (-90) 90 100 100 world0 = (Inr (img1, tr1), s1)
   \<and> build_base_map_tiles env_online 0 45 (-90) 90 1 100 100 world0 = (Inr (img2, tr2), s2)
   \<and> tr1 = tr2
   \<and> project_point_mercator 0 0 tr1 = project_point_mercator 0 0 tr2"
proof -
  have "has_resampling env_online" by (simp add: env_online_def)
  with sample_returns[of env_online world0]
  obtain img2 tr2 s2 where t: "build_base_map_tiles env_online 0 45 (-90) 90 1 100 100 world0 = (Inr (img2, tr2), s2)"
    by blast
  from transforms_path_independent[OF static_online t, of 0 0] t static_online
  show ?thesis by blast
qed

section \<open>Properties of the fetches\<close>

lemma session_get_world: "snd (session_get E req s) = s\<lparr>requests := requests s @ [req]\<rparr>"
  by (simp add: session_get_def)

lemma fetch_openmeteo_total:
  "\<exists>m. fetch_openmeteo E lat lon s = (Inr m, s\<lparr>requests := requests s @ [Current lat lon]\<rparr>)"
  by (simp add: fetch_openmeteo_def session_get_def split: sum.splits)

lemma fetch_minmax_total:
  "\<exists>p. fetch_minmax E lat lon s = (Inr p, s\<lparr>requests := requests s @ [Daily lat lon]\<rparr>)"
  by (simp add: fetch_minmax_def session_get_def split: sum.splits)

lemma download_tile_failure:
  "fst (get_image E (Tile z x y) s) = Inl e \<Longrightarrow> fst (download_tile E z x y s) = Inr placeholder_tile"
  by (cases "get_image E (Tile z x y) s") (simp add: download_tile_def)

lemma download_tile_minmax_failure:
  "fst (get_image E (Tile z x y) s) = Inl e \<Longrightarrow> fst (download_tile_minmax E z x y s) = Inr placeholder_tile_minmax"
  by (cases "get_image E (Tile z x y) s") (simp add: download_tile_minmax_def)

lemma fetch_openmeteo_failure:
  "http E (Current lat lon) = Inl e \<or> (\<exists>r. http E (Current lat lon) = Inr r \<and> fetch_openmeteo_try E r = Inl e)
   \<Longrightarrow> fst (fetch_openmeteo E lat lon s) = Inr [(''temp'', None), (''humedad'', None), (''viento'', None)]"
  by (auto simp: fetch_openmeteo_def session_get_def)

lemma fetch_minmax_failure:
  "http E (Daily lat lon) = Inl e \<or> (\<exists>r. http E (Daily lat lon) = Inr r \<and> fetch_minmax_try E r = Inl e)
   \<Longrightarrow> fst (fetch_minmax E lat lon s) = Inr (None, None)"
  by (auto simp: fetch_minmax_def session_get_def)

text \<open>
  Claim C7. No fetch of a single tile and no fetch of a single observation raises,
  whatever the network answers: \<open>download_tile\<close> always returns a raster, and the
  placeholder of tile size whenever the request, its status or the decoding of the image
  fails; \<open>fetch_openmeteo\<close> always returns a dictionary, whose temperature is absent
  whenever the request or anything in the body of its \<^verbatim>\<open>try\<close> fails; \<open>fetch_minmax\<close>
  always returns a pair, of two absent values in that case.
\<close>

theorem fetch_failures_recovered:
  "(\<exists>img s'. download_tile E z x y s = (Inr img, s')
       \<and> (\<forall>e. fst (get_image E (Tile z x y) s) = Inl e
              \<longrightarrow> img = placeholder_tile \<and> im_size img = (TILE_SIZE, TILE_SIZE)))
   \<and> (\<exists>img s'. download_tile_minmax E z x y s = (Inr img, s')
       \<and> (\<forall>e. fst (get_image E (Tile z x y) s) = Inl e
              \<longrightarrow> img = placeholder_tile_minmax \<and> im_size img = (TILE_SIZE, TILE_SIZE)))
   \<and> (\<exists>m s'. fetch_openmeteo E lat lon s = (Inr m, s')
       \<and> (\<forall>e. http E (Current lat lon) = Inl e
                \<or> (\<exists>r. http E (Current lat lon) = Inr r \<and> fetch_openmeteo_try E r = Inl e)
              \<longrightarrow> meteo_get m ''temp'' = None))
   \<and> (\<exists>p s'. fetch_minmax E lat lon s = (Inr p, s')
       \<and> (\<forall>e. http E (Daily lat lon) = Inl e
                \<or> (\<exists>r. http E (Daily lat lon) = Inr r \<and> fetch_minmax_try E r = Inl e)
              \<longrightarrow> p = (None, None)))"
proof (intro conjI)
  obtain img where d: "download_tile E z x y s = (Inr img, s\<lparr>requests := requests s @ [Tile z x y]\<rparr>)"
    using download_tile_total by blast
  have "\<forall>e. fst (get_image E (Tile z x y) s) = Inl e
          \<longrightarrow> img = placeholder_tile \<and> im_size img = (TILE_SIZE, TILE_SIZE)"
    using download_tile_failure[of E z x y s] d by (auto simp: placeholder_tile_def)
  with d show "\<exists>img s'. download_tile E z x y s = (Inr img, s')
       \<and> (\<forall>e. fst (get_image E (Tile z x y) s) = Inl e
              \<longrightarrow> img = placeholder_tile \<and> im_size img = (TILE_SIZE, TILE_SIZE))"
    by blast
next
  obtain img where d: "download_tile_minmax E z x y s = (Inr img, s\<lparr>requests := requests s @ [Tile z x y]\<rparr>)"
    using download_tile_minmax_total by blast
  have "\<forall>e. fst (get_image E (Tile z x y) s) = Inl e
          \<longrightarrow> img = placeholder_tile_minmax \<and> im_size img = (TILE_SIZE, TILE_SIZE)"
    using download_tile_minmax_failure[of E z x y s] d by (auto simp: placeholder_tile_minmax_def)
  with d show "\<exists>img s'. download_tile_minmax E z x y s = (Inr img, s')
       \<and> (\<forall>e. fst (get_image E (Tile z x y) s) = Inl e
              \<longrightarrow> img = placeholder_tile_minmax \<and> im_size img = (TILE_SIZE, TILE_SIZE))"
    by blast
next
  obtain m where f: "fetch_openmeteo E lat lon s = (Inr m, s\<lparr>requests := requests s @ [Current lat lon]\<rparr>)"
    using fetch_openmeteo_total by blast
  have "\<forall>e. http E (Current lat lon) = Inl e
                \<or> (\<exists>r. http E (Current lat lon) = Inr r \<and> fetch_openmeteo_try E r = Inl e)
              \<longrightarrow> meteo_get m ''temp'' = None"
  proof (intro allI impI)
    fix e
    assume "http E (Current lat lon) = Inl e
                \<or> (\<exists>r. http E (Current lat lon) = Inr r \<and> fetch_openmeteo_try E r = Inl e)"
    from fetch_openmeteo_failure[OF this, of s] f
    show "meteo_get m ''temp'' = None" by (simp add: meteo_get_def)
  qed
  with f show "\<exists>m s'. fetch_openmeteo E lat lon s = (Inr m, s')
       \<and> (\<forall>e. http E (Current lat lon) = Inl e
                \<or> (\<exists>r. http E (Current lat lon) = Inr r \<and> fetch_openmeteo_try E r = Inl e)
              \<longrightarrow> meteo_get m ''temp'' = None)"
    by blast
next
  obtain p where f: "fetch_minmax E lat lon s = (Inr p, s\<lparr>requests := requests s @ [Daily lat lon]\<rparr>)"
    using fetch_minmax_total by blast
  have "\<forall>e. http E (Daily lat lon) = Inl e
                \<or> (\<exists>r. http E (Daily lat lon) = Inr r \<and> fetch_minmax_try E r = Inl e)
              \<longrightarrow> p = (None, None)"
  proof (intro allI impI)
    fix e
    assume "http E (Daily lat lon) = Inl e
                \<or> (\<exists>r. http E (Daily lat lon) = Inr r \<and> fetch_minmax_try E r = Inl e)"
    from fetch_minmax_failure[OF this, of s] f
    show "p = (None, None)" by simp
  qed
  with f show "\<exists>p s'. fetch_minmax E lat lon s = (Inr p, s')
       \<and> (\<forall>e. http E (Daily lat lon) = Inl e
                \<or> (\<exists>r. http E (Daily lat lon) = Inr r \<and> fetch_minmax_try E r = Inl e)
              \<longrightarrow> p = (None, None))"
    by blast
qed

section \<open>Fallback from the static map to the tile mosaic\<close>







theorem fetch_failures_recovered_witness:
  "(\<exists>s'. download_tile env_offline 8 128 96 world0 = (Inr placeholder_tile, s'))
   \<and> im_size placeholder_tile = (256, 256)
   \<and> (\<exists>s'. download_tile_minmax env_offline 8 128 96 world0 = (Inr placeholder_tile_minmax, s'))
   \<and> im_size placeholder_tile_minmax = (256, 256)
   \<and> (\<exists>m s'. fetch_openmeteo env_offline 39.569 2.650 world0 = (Inr m, s') \<and> meteo_get m ''temp'' = None)
   \<and> (\<exists>s'. fetch_minmax env_offline 39.569 2.650 world0 = (Inr (None, None), s'))"
proof -
  have g: "fst (get_image env_offline (Tile 8 128 96) world0) = Inl ConnectionError"
    by (simp add: get_image_def session_get_def env_offline_def)
  have c: "http env_offline (Current 39.569 2.650) = Inl ConnectionError"
    and d: "http env_offline (Daily 39.569 2.650) = Inl ConnectionError"
    by (simp_all add: env_offline_def)
  from fetch_failures_recovered[of env_offline 8 128 96 world0 "39.569" "2.650"] g c d
  show ?thesis
    by (simp add: TILE_SIZE_def)
qed




section \<open>Properties of the label placement engine\<close>

lemma boxes_meet_disjoint: "boxes_meet c b \<longleftrightarrow> \<not> disjoint_boxes c b"
  by (cases c; cases b) auto

lemma disjoint_boxes_sym: "disjoint_boxes c b \<longleftrightarrow> disjoint_boxes b c"
  by (cases c; cases b) auto

lemma overlaps_iff: "overlaps c bs \<longleftrightarrow> (\<exists>b\<in>set bs. \<not> disjoint_boxes c b)"
  by (induction bs) (auto simp: boxes_meet_disjoint)

lemma pairwise_disjoint_snoc:
  "pairwise_disjoint (bs @ [c]) \<longleftrightarrow> pairwise_disjoint bs \<and> (\<forall>b\<in>set bs. disjoint_boxes b c)"
  by (induction bs) (auto simp: list_all_iff)

lemma pairwise_disjoint_nth:
  "pairwise_disjoint bs \<longleftrightarrow> (\<forall>i j. i < j \<and> j < length bs \<longrightarrow> disjoint_boxes (bs ! i) (bs ! j))"
proof (induction bs)
  case Nil
  show ?case by simp
next
  case (Cons b bs)
  show ?case
  proof
    assume a: "pairwise_disjoint (b # bs)"
    show "\<forall>i j. i < j \<and> j < length (b # bs) \<longrightarrow> disjoint_boxes ((b # bs) ! i) ((b # bs) ! j)"
    proof (intro allI impI)
      fix i j assume ij: "i < j \<and> j < length (b # bs)"
      then obtain j' where j: "j = Suc j'" by (cases j) auto
      show "disjoint_boxes ((b # bs) ! i) ((b # bs) ! j)"
      proof (cases i)
        case 0
        have "bs ! j' \<in> set bs" using ij j by simp
        then show ?thesis using a 0 j by (simp add: list_all_iff)
      next
        case (Suc i')
        then show ?thesis using a Cons.IH ij j by simp
      qed
    qed
  next
    assume r: "\<forall>i j. i < j \<and> j < length (b # bs) \<longrightarrow> disjoint_boxes ((b # bs) ! i) ((b # bs) ! j)"
    have "list_all (disjoint_boxes b) bs"
      unfolding list_all_iff
    proof
      fix c assume "c \<in> set bs"
      then obtain k where "k < length bs" "bs ! k = c" by (auto simp: in_set_conv_nth)
      with r[rule_format, of 0 "Suc k"] show "disjoint_boxes b c" by simp
    qed
    moreover have "pairwise_disjoint bs"
      unfolding Cons.IH
    proof (intro allI impI)
      fix i j assume "i < j \<and> j < length bs"
      with r[rule_format, of "Suc i" "Suc j"] show "disjoint_boxes (bs ! i) (bs ! j)" by simp
    qed
    ultimately show "pairwise_disjoint (b # bs)" by simp
  qed
qed

lemma main_city_run:
  assumes "project_point_mercator lon lat tr = Inr (x, y)"
    and "fetch_openmeteo E lat lon s = (Inr m, s')"
  shows "main_city E tr (lat, lon) (placed, img) s =
     (if overlaps (main_candidate E x y (main_text E (meteo_get m ''temp''))) placed
      then (Inr (placed, img), s')
      else (Inr (placed @ [main_candidate E x y (main_text E (meteo_get m ''temp''))],
                 draw_marker img x y [main_text E (meteo_get m ''temp'')] (meteo_get m ''temp'')), s'))"
  using assms by (simp add: main_city_def Let_def)

lemma main_city_step:
  assumes "main_city E tr c (placed, img) s = (Inr (placed', img'), s')"
  shows "(placed' = placed \<and> img' = img) \<or> (\<exists>cand. placed' = placed @ [cand] \<and> \<not> overlaps cand placed)"
proof -
  obtain lat lon where c: "c = (lat, lon)" by (cases c)
  obtain x y where p: "project_point_mercator lon lat tr = Inr (x, y)"
    using assms by (cases "project_point_mercator lon lat tr") (auto simp: main_city_def c)
  obtain m where f: "fetch_openmeteo E lat lon s = (Inr m, s\<lparr>requests := requests s @ [Current lat lon]\<rparr>)"
    using fetch_openmeteo_total by blast
  let ?cand = "main_candidate E x y (main_text E (meteo_get m ''temp''))"
  show ?thesis
  proof (cases "overlaps ?cand placed")
    case True
    with assms show ?thesis unfolding c main_city_run[OF p f] by simp
  next
    case False
    with assms have "placed' = placed @ [?cand]" unfolding c main_city_run[OF p f] by simp
    with False show ?thesis by blast
  qed
qed

lemma draw_badge_step:
  "draw_badge E img x y t temp placed = (False, img, placed) \<and> overlaps (badge_candidate E x y t) placed
   \<or> (\<exists>img'. draw_badge E img x y t temp placed = (True, img', placed @ [badge_candidate E x y t]))
      \<and> \<not> overlaps (badge_candidate E x y t) placed"
  by (cases "overlaps (badge_candidate E x y t) placed") (simp_all add: draw_badge_def Let_def)

lemma render_city_step:
  assumes "render_city E kind tr c (placed, img) s = (Inr (placed', img'), s')"
  shows "(placed' = placed \<and> img' = img) \<or> (\<exists>cand. placed' = placed @ [cand] \<and> \<not> overlaps cand placed)"
proof -
  obtain lat lon where c: "c = (lat, lon)" by (cases c)
  have nz: "max_x tr - min_x tr \<noteq> 0" "max_y tr - min_y tr \<noteq> 0"
    using assms by (auto simp: render_city_def c split: if_splits)
  obtain tmin tmax where f: "fetch_minmax E lat lon s = (Inr (tmin, tmax), s\<lparr>requests := requests s @ [Daily lat lon]\<rparr>)"
    using fetch_minmax_total by (metis surj_pair)
  define x where "x = py_int ((lon_to_merc_x lon - min_x tr) / (max_x tr - min_x tr) * of_int WIDTH)"
  define y where "y = py_int ((max_y tr - lat_to_merc_y lat) / (max_y tr - min_y tr) * of_int HEIGHT)"
  define temp where "temp = (if kind = ''min'' then tmin else tmax)"
  define t where "t = (case temp of None \<Rightarrow> ''Sin datos''
                  | Some v \<Rightarrow> float_str E (py_round1 v) @ [char_of (176 :: nat), CHR ''C''])"
  have run: "render_city E kind tr c (placed, img) s =
      (case draw_badge E img x y t temp placed of
           (accepted, img', placed') \<Rightarrow> (Inr (placed', img'), s\<lparr>requests := requests s @ [Daily lat lon]\<rparr>))"
    using nz by (simp add: render_city_def c f Let_def x_def y_def temp_def t_def)
  show ?thesis
  proof (cases "overlaps (badge_candidate E x y t) placed")
    case True
    with draw_badge_step[of E img x y t temp placed]
    have "draw_badge E img x y t temp placed = (False, img, placed)" by blast
    with assms show ?thesis unfolding run by simp
  next
    case False
    with draw_badge_step[of E img x y t temp placed]
    obtain i where "draw_badge E img x y t temp placed = (True, i, placed @ [badge_candidate E x y t])"
      by blast
    with assms have "placed' = placed @ [badge_candidate E x y t]" unfolding run by simp
    with False show ?thesis by blast
  qed
qed

lemma step_keeps_disjoint:
  assumes "pairwise_disjoint placed"
    and "(placed' = placed \<and> img' = img) \<or> (\<exists>cand. placed' = placed @ [cand] \<and> \<not> overlaps cand placed)"
  shows "pairwise_disjoint placed'"
  using assms disjoint_boxes_sym by (auto simp: pairwise_disjoint_snoc overlaps_iff)

lemma main_cities_disjoint:
  "pairwise_disjoint placed \<Longrightarrow> main_cities E tr cs (placed, img) s = (Inr (placed', img'), s')
   \<Longrightarrow> pairwise_disjoint placed'"
proof (induction cs arbitrary: placed img s)
  case Nil
  then show ?case by simp
next
  case (Cons c cs)
  from Cons.prems(2) obtain p1 i1 s1 where
    st: "main_city E tr c (placed, img) s = (Inr (p1, i1), s1)"
    and rest: "main_cities E tr cs (p1, i1) s1 = (Inr (placed', img'), s')"
    by (auto split: prod.splits sum.splits)
  have "pairwise_disjoint p1"
    using step_keeps_disjoint[OF Cons.prems(1) main_city_step[OF st]] .
  from Cons.IH[OF this rest] show ?case .
qed

lemma render_cities_disjoint:
  "pairwise_disjoint placed \<Longrightarrow> render_cities E kind tr cs (placed, img) s = (Inr (placed', img'), s')
   \<Longrightarrow> pairwise_disjoint placed'"
proof (induction cs arbitrary: placed img s)
  case Nil
  then show ?case by simp
next
  case (Cons c cs)
  from Cons.prems(2) obtain p1 i1 s1 where
    st: "render_city E kind tr c (placed, img) s = (Inr (p1, i1), s1)"
    and rest: "render_cities E kind tr cs (p1, i1) s1 = (Inr (placed', img'), s')"
    by (auto split: prod.splits sum.splits)
  have "pairwise_disjoint p1"
    using step_keeps_disjoint[OF Cons.prems(1) render_city_step[OF st]] .
  from Cons.IH[OF this rest] show ?case .
qed

lemma sample_project_centre: "project_point_mercator 0 0 sample_transform = Inr (600, 400)"
  by (simp add: project_point_mercator_def sample_transform_def lon_to_merc_x_def radians_def
      RADIUS_def lat_to_merc_y_def tan_45 py_int_def)

lemma sample_project_east: "project_point_mercator 5 0 sample_transform = Inr (900, 400)"
  by (simp add: project_point_mercator_def sample_transform_def lon_to_merc_x_def radians_def
      RADIUS_def lat_to_merc_y_def tan_45 py_int_def)

lemma offline_meteo:
  "fetch_openmeteo env_offline lat lon s
   = (Inr [(''temp'', None), (''humedad'', None), (''viento'', None)],
      s\<lparr>requests := requests s @ [Current lat lon]\<rparr>)"
  by (simp add: fetch_openmeteo_def session_get_def env_offline_def)

lemma offline_main_candidate:
  "main_candidate env_offline 600 400 ''Sin datos'' = (608, 381, 711, 419)"
  "main_candidate env_offline 900 400 ''Sin datos'' = (908, 381, 1011, 419)"
  by (simp_all add: main_candidate_def text_size_def env_offline_def WIDTH_def Let_def)

lemma offline_badge_candidate:
  "badge_candidate env_offline 600 400 ''Sin datos'' = (607, 384, 706, 416)"
  "badge_candidate env_offline 900 400 ''Sin datos'' = (907, 384, 1006, 416)"
  by (simp_all add: badge_candidate_def text_size_def env_offline_def WIDTH_def Let_def)

text \<open>
  Both placement loops return whenever the transform is not degenerate: the fetches
  never raise, and only a division by zero in the projection can end a round.
\<close>

lemma project_returns:
  "max_x tr - min_x tr \<noteq> 0 \<Longrightarrow> max_y tr - min_y tr \<noteq> 0
   \<Longrightarrow> \<exists>x y. project_point_mercator lon lat tr = Inr (x, y)"
  by (simp add: project_point_mercator_def Let_def)

lemma main_city_returns:
  assumes "max_x tr - min_x tr \<noteq> 0" and "max_y tr - min_y tr \<noteq> 0"
  shows "\<exists>st' s'. main_city E tr c st s = (Inr st', s')"
proof -
  obtain lat lon where c: "c = (lat, lon)" by (cases c)
  obtain placed img where st: "st = (placed, img)" by (cases st)
  obtain x y where p: "project_point_mercator lon lat tr = Inr (x, y)"
    using project_returns[OF assms] by blast
  obtain m where f: "fetch_openmeteo E lat lon s = (Inr m, s\<lparr>requests := requests s @ [Current lat lon]\<rparr>)"
    using fetch_openmeteo_total by blast
  show ?thesis
    unfolding c st main_city_run[OF p f] by simp
qed

lemma main_cities_returns:
  assumes "max_x tr - min_x tr \<noteq> 0" and "max_y tr - min_y tr \<noteq> 0"
  shows "\<exists>st' s'. main_cities E tr cs st s = (Inr st', s')"
proof (induction cs arbitrary: st s)
  case Nil
  show ?case by simp
next
  case (Cons c cs)
  obtain st1 s1 where a: "main_city E tr c st s = (Inr st1, s1)"
    using main_city_returns[OF assms] by blast
  from Cons.IH[of st1 s1] a show ?case by simp
qed

lemma render_city_returns:
  assumes "max_x tr - min_x tr \<noteq> 0" and "max_y tr - min_y tr \<noteq> 0"
  shows "\<exists>st' s'. render_city E kind tr c st s = (Inr st', s')"
proof -
  obtain lat lon where c: "c = (lat, lon)" by (cases c)
  obtain placed img where st: "st = (placed, img)" by (cases st)
  obtain tmin tmax where f: "fetch_minmax E lat lon s = (Inr (tmin, tmax), s\<lparr>requests := requests s @ [Daily lat lon]\<rparr>)"
    using fetch_minmax_total by (metis surj_pair)
  show ?thesis
    using assms by (simp add: render_city_def c st f Let_def split: prod.splits)
qed

lemma render_cities_returns:
  assumes "max_x tr - min_x tr \<noteq> 0" and "max_y tr - min_y tr \<noteq> 0"
  shows "\<exists>st' s'. render_cities E kind tr cs st s = (Inr st', s')"
proof (induction cs arbitrary: st s)
  case Nil
  show ?case by simp
next
  case (Cons c cs)
  obtain st1 s1 where a: "render_city E kind tr c st s = (Inr st1, s1)"
    using render_city_returns[OF assms] by blast
  from Cons.IH[of st1 s1] a show ?case by simp
qed

text \<open>
  Claim C3. For every ordered list of cities, every transform and every world, the list
  of accepted boxes at the end of the placement loop of either program is pairwise
  disjoint: no two of its boxes meet as pixel rectangles.
\<close>

theorem accepted_boxes_pairwise_disjoint:
  "(main_cities E tr cities ([], img) s = (Inr (placed, img'), s')
      \<longrightarrow> pairwise_disjoint placed
        \<and> (\<forall>i j. i < j \<and> j < length placed \<longrightarrow> disjoint_boxes (placed ! i) (placed ! j)))
   \<and> (render_cities E kind tr cities ([], img) s = (Inr (placed, img'), s')
      \<longrightarrow> pairwise_disjoint placed
        \<and> (\<forall>i j. i < j \<and> j < length placed \<longrightarrow> disjoint_boxes (placed ! i) (placed ! j)))"
proof (intro conjI impI)
  assume "main_cities E tr cities ([], img) s = (Inr (placed, img'), s')"
  from main_cities_disjoint[OF _ this] show a: "pairwise_disjoint placed" by simp
  then show "\<forall>i j. i < j \<and> j < length placed \<longrightarrow> disjoint_boxes (placed ! i) (placed ! j)"
    by (simp only: pairwise_disjoint_nth)
next
  assume "render_cities E kind tr cities ([], img) s = (Inr (placed, img'), s')"
  from render_cities_disjoint[OF _ this] show a: "pairwise_disjoint placed" by simp
  then show "\<forall>i j. i < j \<and> j < length placed \<longrightarrow> disjoint_boxes (placed ! i) (placed ! j)"
    by (simp only: pairwise_disjoint_nth)
qed

lemma sample_main_cities:
  "\<exists>img' s'. main_cities env_offline sample_transform [(0, 0), (0, 0), (0, 5)] ([], blank) world0
     = (Inr ([(608, 381, 711, 419), (908, 381, 1011, 419)], img'), s')"
  by (simp add: main_city_run[OF sample_project_centre offline_meteo]
      main_city_run[OF sample_project_east offline_meteo]
      meteo_get_def main_text_def offline_main_candidate)

lemma offline_minmax:
  "fetch_minmax env_offline lat lon s = (Inr (None, None), s\<lparr>requests := requests s @ [Daily lat lon]\<rparr>)"
  by (simp add: fetch_minmax_def session_get_def env_offline_def)

lemma sample_render_city_centre:
  "render_city env_offline kind sample_transform (0, 0) (placed, img) s
   = (case draw_badge env_offline img 600 400 ''Sin datos'' None placed of
        (accepted, img', placed') \<Rightarrow> (Inr (placed', img'), s\<lparr>requests := requests s @ [Daily 0 0]\<rparr>))"
  by (simp add: render_city_def offline_minmax sample_transform_def lon_to_merc_x_def radians_def
      RADIUS_def lat_to_merc_y_def tan_45 py_int_def WIDTH_def HEIGHT_def)

lemma sample_render_city_east:
  "render_city env_offline kind sample_transform (0, 5) (placed, img) s
   = (case draw_badge env_offline img 900 400 ''Sin datos'' None placed of
        (accepted, img', placed') \<Rightarrow> (Inr (placed', img'), s\<lparr>requests := requests s @ [Daily 0 5]\<rparr>))"
  by (simp add: render_city_def offline_minmax sample_transform_def lon_to_merc_x_def radians_def
      RADIUS_def lat_to_merc_y_def tan_45 py_int_def WIDTH_def HEIGHT_def)

lemma draw_badge_cases:
  "draw_badge E img x y t temp placed =
     (if overlaps (badge_candidate E x y t) placed then (False, img, placed)
      else (True, fst (snd (draw_badge E img x y t temp placed)), placed @ [badge_candidate E x y t]))"
  using draw_badge_step[of E img x y t temp placed] by auto

lemma sample_render_cities:
  "\<exists>img' s'. render_cities env_offline ''min'' sample_transform [(0, 0), (0, 0), (0, 5)] ([], blank) world0
     = (Inr ([(607, 384, 706, 416), (907, 384, 1006, 416)], img'), s')"
proof -
  let ?b1 = "(607, 384, 706, 416) :: box" and ?b2 = "(907, 384, 1006, 416) :: box"
  obtain i1 where d1: "draw_badge env_offline blank 600 400 ''Sin datos'' None [] = (True, i1, [?b1])"
    using draw_badge_step[of env_offline blank 600 400 "''Sin datos''" None "[]"]
    by (auto simp: offline_badge_candidate)
  have d2: "draw_badge env_offline i1 600 400 ''Sin datos'' None [?b1] = (False, i1, [?b1])"
    using draw_badge_step[of env_offline i1 600 400 "''Sin datos''" None "[?b1]"]
    by (auto simp: offline_badge_candidate)
  obtain i3 where d3: "draw_badge env_offline i1 900 400 ''Sin datos'' None [?b1] = (True, i3, [?b1, ?b2])"
    using draw_badge_step[of env_offline i1 900 400 "''Sin datos''" None "[?b1]"]
    by (auto simp: offline_badge_candidate)
  show ?thesis
    by (simp add: sample_render_city_centre sample_render_city_east d1 d2 d3)
qed

theorem accepted_boxes_pairwise_disjoint_witness:
  "(\<exists>img' s'. main_cities env_offline sample_transform [(0, 0), (0, 0), (0, 5)] ([], blank) world0
        = (Inr ([(608, 381, 711, 419), (908, 381, 1011, 419)], img'), s'))
   \<and> pairwise_disjoint [(608, 381, 711, 419), (908, 381, 1011, 419)]
   \<and> (\<exists>img' s'. render_cities env_offline ''min'' sample_transform [(0, 0), (0, 0), (0, 5)] ([], blank) world0
        = (Inr ([(607, 384, 706, 416), (907, 384, 1006, 416)], img'), s'))
   \<and> pairwise_disjoint [(607, 384, 706, 416), (907, 384, 1006, 416)]"
proof -
  from sample_main_cities obtain i1 s1 where
    m: "main_cities env_offline sample_transform [(0, 0), (0, 0), (0, 5)] ([], blank) world0
        = (Inr ([(608, 381, 711, 419), (908, 381, 1011, 419)], i1), s1)" by blast
  from sample_render_cities obtain i2 s2 where
    r: "render_cities env_offline ''min'' sample_transform [(0, 0), (0, 0), (0, 5)] ([], blank) world0
        = (Inr ([(607, 384, 706, 416), (907, 384, 1006, 416)], i2), s2)" by blast
  have "pairwise_disjoint [(608, 381, 711, 419), (908, 381, 1011, 419)]"
    using accepted_boxes_pairwise_disjoint[of env_offline sample_transform "[(0, 0), (0, 0), (0, 5)]" blank world0
        "[(608, 381, 711, 419), (908, 381, 1011, 419)]" i1 s1] m by blast
  moreover have "pairwise_disjoint [(607, 384, 706, 416), (907, 384, 1006, 416)]"
    using accepted_boxes_pairwise_disjoint[of env_offline sample_transform "[(0, 0), (0, 0), (0, 5)]" blank world0
        "[(607, 384, 706, 416), (907, 384, 1006, 416)]" i2 s2 "''min''"] r by blast
  ultimately show ?thesis using m r by blast
qed

text \<open>
  Claim C9. When the candidate box of a city meets a box accepted before, the round
  changes nothing: in \<open>main\<close> the list of accepted boxes and the image come back as
  they were, in \<open>draw_badge\<close> the result is \<open>False\<close> with the image and the list
  unchanged, so neither the marker nor the badge is drawn.
\<close>

theorem overlapping_candidate_rejected:
  "(project_point_mercator lon lat tr = Inr (x, y) \<and> fetch_openmeteo E lat lon s = (Inr m, s')
      \<and> b \<in> set placed \<and> \<not> disjoint_boxes (main_candidate E x y (main_text E (meteo_get m ''temp''))) b
      \<longrightarrow> main_city E tr (lat, lon) (placed, img) s = (Inr (placed, img), s'))
   \<and> (b \<in> set placed \<and> \<not> disjoint_boxes (badge_candidate E x y t) b
      \<longrightarrow> draw_badge E img x y t temp placed = (False, img, placed))"
proof (intro conjI impI)
  assume a: "project_point_mercator lon lat tr = Inr (x, y) \<and> fetch_openmeteo E lat lon s = (Inr m, s')
      \<and> b \<in> set placed \<and> \<not> disjoint_boxes (main_candidate E x y (main_text E (meteo_get m ''temp''))) b"
  then have "overlaps (main_candidate E x y (main_text E (meteo_get m ''temp''))) placed"
    unfolding overlaps_iff by blast
  with a show "main_city E tr (lat, lon) (placed, img) s = (Inr (placed, img), s')"
    by (simp add: main_city_run)
next
  assume a: "b \<in> set placed \<and> \<not> disjoint_boxes (badge_candidate E x y t) b"
  then have "overlaps (badge_candidate E x y t) placed"
    unfolding overlaps_iff by blast
  then show "draw_badge E img x y t temp placed = (False, img, placed)"
    by (simp add: draw_badge_def Let_def)
qed

theorem overlapping_candidate_rejected_witness:
  "main_city env_offline sample_transform (0, 0) ([(608, 381, 711, 419)], blank) world0
     = (Inr ([(608, 381, 711, 419)], blank), world0\<lparr>requests := requests world0 @ [Current 0 0]\<rparr>)
   \<and> draw_badge env_offline blank 600 400 ''Sin datos'' None [(607, 384, 706, 416)]
     = (False, blank, [(607, 384, 706, 416)])"
  using overlapping_candidate_rejected[of 0 0 sample_transform 600 400 env_offline world0
      "[(''temp'', None), (''humedad'', None), (''viento'', None)]"
      "world0\<lparr>requests := requests world0 @ [Current 0 0]\<rparr>"
      "(608, 381, 711, 419)" "[(608, 381, 711, 419)]" blank]
    overlapping_candidate_rejected[of _ _ _ 600 400 env_offline _ _ _
      "(607, 384, 706, 416)" "[(607, 384, 706, 416)]" blank "''Sin datos''" None]
  by (simp add: sample_project_centre offline_meteo meteo_get_def main_text_def
      offline_main_candidate offline_badge_candidate)

end
